theory Spec2Isabelle
  imports Main
begin

section \<open>Python strings\<close>

text \<open>
  A Python \<open>str\<close> is a sequence of Unicode code points. Code points do not fit the 8-bit
  \<open>char\<close> of HOL (the text normalizer removes U+200B), so a string is a list of code
  points, and \<open>py\<close> turns an ASCII literal of the source into one. \<open>len(s)\<close> is
  \<open>length s\<close>, and a string is truthy when it is not empty.
\<close>

type_synonym pystr = "nat list"

definition py :: "string \<Rightarrow> pystr" where
  "py s = map of_char s"

text \<open>
  \<open>str.strip()\<close>, \<open>str.split()\<close> and the \<open>\\s\<close> of \<open>re\<close> on a \<open>str\<close> pattern all use
  the same set of code points: U+0009..U+000D, U+001C..U+0020, U+0085, U+00A0, U+1680,
  U+2000..U+200A, U+2028, U+2029, U+202F, U+205F, U+3000. U+200B (zero width space) is not
  in it.
\<close>

definition is_space :: "nat \<Rightarrow> bool" where
  "is_space c \<longleftrightarrow>
     (9 \<le> c \<and> c \<le> 13) \<or> (28 \<le> c \<and> c \<le> 32) \<or> c = 133 \<or> c = 160 \<or> c = 5760 \<or>
     (8192 \<le> c \<and> c \<le> 8202) \<or> c = 8232 \<or> c = 8233 \<or> c = 8239 \<or> c = 8287 \<or> c = 12288"

text \<open>
  \<open>s.lstrip(..)\<close>, \<open>s.rstrip(..)\<close>, \<open>s.strip(..)\<close> for a set of characters given as a
  predicate; \<open>strip\<close> is \<open>s.strip()\<close> without argument, which strips whitespace.
\<close>

definition lstrip_with :: "(nat \<Rightarrow> bool) \<Rightarrow> pystr \<Rightarrow> pystr" where
  "lstrip_with P s = dropWhile P s"

definition rstrip_with :: "(nat \<Rightarrow> bool) \<Rightarrow> pystr \<Rightarrow> pystr" where
  "rstrip_with P s = rev (dropWhile P (rev s))"

definition strip_with :: "(nat \<Rightarrow> bool) \<Rightarrow> pystr \<Rightarrow> pystr" where
  "strip_with P s = rstrip_with P (lstrip_with P s)"

definition strip :: "pystr \<Rightarrow> pystr" where
  "strip s = strip_with is_space s"

text \<open>\<open>s.replace(old, new)\<close> for a one-character \<open>old\<close>.\<close>

definition replace_char :: "nat \<Rightarrow> pystr \<Rightarrow> pystr \<Rightarrow> pystr" where
  "replace_char old new s = concat (map (\<lambda>c. if c = old then new else [c]) s)"

text \<open>
  \<open>re.sub(r'[..]+', repl, s)\<close> for a character class given as a predicate: every
  maximal run of characters of the class becomes one \<open>repl\<close>.
\<close>

function sub_runs :: "(nat \<Rightarrow> bool) \<Rightarrow> pystr \<Rightarrow> pystr \<Rightarrow> pystr" where
  "sub_runs P repl [] = []"
| "sub_runs P repl (c # cs) =
     (if P c then repl @ sub_runs P repl (dropWhile P cs) else c # sub_runs P repl cs)"
  by pat_completeness auto
termination
  by (relation "measure (\<lambda>(P, repl, s). length s)")
     (auto simp: length_dropWhile_le less_Suc_eq_le)

text \<open>\<open>s.startswith(p)\<close>, \<open>s.endswith(p)\<close> and \<open>needle in hay\<close>.\<close>

definition startswith :: "pystr \<Rightarrow> pystr \<Rightarrow> bool" where
  "startswith s p \<longleftrightarrow> take (length p) s = p"

definition endswith :: "pystr \<Rightarrow> pystr \<Rightarrow> bool" where
  "endswith s p \<longleftrightarrow> length p \<le> length s \<and> drop (length s - length p) s = p"

fun py_in :: "pystr \<Rightarrow> pystr \<Rightarrow> bool" where
  "py_in needle [] = (needle = [])"
| "py_in needle (c # cs) = (startswith (c # cs) needle \<or> py_in needle cs)"

text \<open>\<open>sep.join(parts)\<close>.\<close>

fun join :: "pystr \<Rightarrow> pystr list \<Rightarrow> pystr" where
  "join sep [] = []"
| "join sep [x] = x"
| "join sep (x # y # ys) = x @ sep @ join sep (y # ys)"

text \<open>
  \<open>s.split()\<close>: the maximal runs of non-whitespace characters. The first argument is
  the word read so far.
\<close>

fun split_from :: "pystr \<Rightarrow> pystr \<Rightarrow> pystr list" where
  "split_from w [] = (if w = [] then [] else [w])"
| "split_from w (c # cs) =
     (if is_space c then (if w = [] then split_from [] cs else w # split_from [] cs)
      else split_from (w @ [c]) cs)"

definition split :: "pystr \<Rightarrow> pystr list" where
  "split s = split_from [] s"

text \<open>\<open>str(i)\<close> for an integer, and the slice \<open>s[:n]\<close> (a negative \<open>n\<close> counts from the end).\<close>

fun str_of_nat :: "nat \<Rightarrow> pystr" where
  "str_of_nat n = (if n < 10 then [48 + n] else str_of_nat (n div 10) @ [48 + n mod 10])"

declare str_of_nat.simps [simp del]

definition str_of_int :: "int \<Rightarrow> pystr" where
  "str_of_int i = (if i < 0 then 45 # str_of_nat (nat (- i)) else str_of_nat (nat i))"

definition slice_to :: "int \<Rightarrow> pystr \<Rightarrow> pystr" where
  "slice_to n s = (if 0 \<le> n then take (nat n) s else take (length s - nat (- n)) s)"

subsection \<open>Tables of the Python runtime\<close>

text \<open>
  \<open>str.lower()\<close>, the classes \<open>\\d\<close> and \<open>\\w\<close> of \<open>re\<close> and \<open>repr\<close> of a string are
  given by the Unicode tables of the interpreter, which are not part of the repository.
  The functions that use them take them as a parameter; \<open>ascii_rt\<close> is what the tables
  are on ASCII text (letters, digits, underscore; a string without quote or backslash
  is printed between single quotes), used to run the functions on concrete documents.
\<close>

record pyrt =
  str_lower :: "pystr \<Rightarrow> pystr"
  re_digit :: "nat \<Rightarrow> bool"
  re_word :: "nat \<Rightarrow> bool"
  str_repr :: "pystr \<Rightarrow> pystr"

definition ascii_lower :: "pystr \<Rightarrow> pystr" where
  "ascii_lower s = map (\<lambda>c. if 65 \<le> c \<and> c \<le> 90 then c + 32 else c) s"

definition ascii_digit :: "nat \<Rightarrow> bool" where
  "ascii_digit c \<longleftrightarrow> 48 \<le> c \<and> c \<le> 57"

definition ascii_word :: "nat \<Rightarrow> bool" where
  "ascii_word c \<longleftrightarrow> (48 \<le> c \<and> c \<le> 57) \<or> (65 \<le> c \<and> c \<le> 90) \<or> (97 \<le> c \<and> c \<le> 122) \<or> c = 95"

definition ascii_rt :: pyrt where
  "ascii_rt = \<lparr> str_lower = ascii_lower, re_digit = ascii_digit, re_word = ascii_word,
                str_repr = (\<lambda>s. 39 # s @ [39]) \<rparr>"

section \<open>Text normalizer\<close>

text \<open>
  \<^verbatim>\<open>
  def clean_text(text: str) -> str:
      text = text.replace('\u200b', '')  # Remove zero-width space
      text = text.replace('\xa0', ' ')   # Replace non-breaking space
      text = re.sub(r'\s+', ' ', text)   # Normalize whitespace
      return text.strip()
  \<close>
\<close>

definition clean_text :: "pystr \<Rightarrow> pystr" where
  "clean_text text =
     strip (sub_runs is_space [32] (replace_char 160 [32] (replace_char 8203 [] text)))"

section \<open>Document trees\<close>

text \<open>
  The tree that the HTML parser hands to the extractors: a tag has a name, its attributes
  (name and value, both strings; the parser stores an attribute without value as the
  empty string) and its contents; a \<open>NavigableString\<close> is a piece of text. The document
  (\<open>soup\<close>) is itself a tag, named \<open>[document]\<close>, without attributes. Comments and other
  nodes that \<open>get_text\<close> leaves out are not represented. A tag object is always truthy,
  so \<open>if h1:\<close> asks whether \<open>find\<close> returned a tag.
\<close>

datatype node = NavigableString pystr | Tag pystr "(pystr \<times> pystr) list" "node list"

fun get_text :: "node \<Rightarrow> pystr" where
  "get_text (NavigableString s) = s"
| "get_text (Tag nm ats cs) = concat (map get_text cs)"

fun tag_name :: "node \<Rightarrow> pystr option" where
  "tag_name (NavigableString s) = None"
| "tag_name (Tag nm ats cs) = Some nm"

text \<open>\<open>tag.get(key)\<close>: the value of an attribute, \<open>None\<close> when the tag does not have it.\<close>

fun get :: "node \<Rightarrow> pystr \<Rightarrow> pystr option" where
  "get (NavigableString s) key = None"
| "get (Tag nm ats cs) key = map_of ats key"

text \<open>
  The parser keeps the \<open>class\<close> attribute as the list of its whitespace-separated
  tokens.
\<close>

definition get_class :: "node \<Rightarrow> pystr list option" where
  "get_class n = map_option split (get n (py ''class''))"

text \<open>
  An element is handled together with its ancestors, nearest first, as \<open>find_parent\<close>
  and \<open>.parent\<close> need them. \<open>walk\<close> lists a tag and the tags below it in document
  order; \<open>descendants\<close> lists the tags strictly below.
\<close>

type_synonym elem = "node \<times> node list"

fun walk :: "node list \<Rightarrow> node \<Rightarrow> elem list" where
  "walk anc (NavigableString s) = []"
| "walk anc (Tag nm ats cs) =
     (Tag nm ats cs, anc) # concat (map (walk (Tag nm ats cs # anc)) cs)"

fun descendants :: "elem \<Rightarrow> elem list" where
  "descendants (NavigableString s, anc) = []"
| "descendants (Tag nm ats cs, anc) = concat (map (walk (Tag nm ats cs # anc)) cs)"

text \<open>
  \<open>tag.find_all(..)\<close> and \<open>tag.find(..)\<close> with the filter as a predicate: all matching
  tags below \<open>tag\<close> in document order, and the first of them or \<open>None\<close>.
  \<open>find_all(.., recursive=False)\<close> looks at the children only.
\<close>

definition find_all :: "(elem \<Rightarrow> bool) \<Rightarrow> elem \<Rightarrow> elem list" where
  "find_all P e = filter P (descendants e)"

definition find_first :: "(elem \<Rightarrow> bool) \<Rightarrow> elem \<Rightarrow> elem option" where
  "find_first P e = List.find P (descendants e)"

definition named :: "string \<Rightarrow> elem \<Rightarrow> bool" where
  "named nm e \<longleftrightarrow> tag_name (fst e) = Some (py nm)"

text \<open>The filter \<open>href=True\<close>: the tag has the attribute, whatever its value.\<close>

definition has_href :: "elem \<Rightarrow> bool" where
  "has_href e \<longleftrightarrow> get (fst e) (py ''href'') \<noteq> None"

definition a_href :: "elem \<Rightarrow> bool" where
  "a_href e \<longleftrightarrow> named ''a'' e \<and> has_href e"

text \<open>\<open>link.get('href', '')\<close> and \<open>img.get('src', '')\<close>.\<close>

definition get_or_empty :: "node \<Rightarrow> string \<Rightarrow> pystr" where
  "get_or_empty n key = (case get n (py key) of None \<Rightarrow> [] | Some v \<Rightarrow> v)"

text \<open>
  A filter function given for the \<open>class\<close> attribute (\<open>class_=f\<close>) is called with
  \<open>None\<close> when the tag has no class attribute; otherwise with every token, and then with
  the tokens joined by a space. A filter function for another attribute (\<open>id=f\<close>) is
  called with the attribute's value, or \<open>None\<close>.
\<close>

definition match_class :: "(pystr option \<Rightarrow> bool) \<Rightarrow> node \<Rightarrow> bool" where
  "match_class f n =
     (case get_class n of
        None \<Rightarrow> f None
      | Some toks \<Rightarrow> list_ex (\<lambda>t. f (Some t)) toks \<or> f (Some (join [32] toks)))"

definition match_attr :: "string \<Rightarrow> (pystr option \<Rightarrow> bool) \<Rightarrow> node \<Rightarrow> bool" where
  "match_attr key f n = f (get n (py key))"

text \<open>
  \<open>soup.select_one(selector)\<close> for the selectors of the source: \<open>div.C\<close> is a \<open>div\<close>
  with the class token \<open>C\<close>, \<open>div[role="main"]\<close> a \<open>div\<close> whose \<open>role\<close> is \<open>main\<close>,
  and a bare name a tag of that name. The result is the first match in document order.
\<close>

datatype selector = DivClass string | DivRoleMain | TagName string

fun matches :: "selector \<Rightarrow> elem \<Rightarrow> bool" where
  "matches (DivClass c) e =
     (named ''div'' e \<and> (case get_class (fst e) of None \<Rightarrow> False | Some toks \<Rightarrow> py c \<in> set toks))"
| "matches DivRoleMain e = (named ''div'' e \<and> get (fst e) (py ''role'') = Some (py ''main''))"
| "matches (TagName t) e = named t e"

definition select_one :: "elem \<Rightarrow> selector \<Rightarrow> elem option" where
  "select_one soup sel = find_first (matches sel) soup"

section \<open>Field extractors\<close>

subsection \<open>Title\<close>

text \<open>
  \<^verbatim>\<open>
  def extract_title(soup):
      h1 = soup.find('h1')
      if h1:
          return clean_text(h1.get_text())
      h2 = soup.find('h2')
      if h2:
          return clean_text(h2.get_text())
      return "Untitled"
  \<close>
\<close>

definition extract_title :: "node \<Rightarrow> pystr" where
  "extract_title soup =
     (case find_first (named ''h1'') (soup, []) of
        Some h1 \<Rightarrow> clean_text (get_text (fst h1))
      | None \<Rightarrow>
          (case find_first (named ''h2'') (soup, []) of
             Some h2 \<Rightarrow> clean_text (get_text (fst h2))
           | None \<Rightarrow> py ''Untitled''))"

subsection \<open>Body\<close>

text \<open>The last entry of \<open>EXCLUDED_SECTIONS\<close> starts with the copyright sign U+00A9.\<close>

definition EXCLUDED_SECTIONS :: "pystr list" where
  "EXCLUDED_SECTIONS =
     [py ''Resources and Information'', py ''Quick Links'', py ''Website Policies'',
      169 # py '' The Aga Khan University Hospital'']"

text \<open>
  The content region. First the selectors, in their order:
  \<^verbatim>\<open>
      for selector in ['div.ContentMain', 'div.MainContentZone', 'div[role="main"]', 'article', 'main']:
          content_div = soup.select_one(selector)
          if content_div:
              break
  \<close>
\<close>

definition content_selectors :: "selector list" where
  "content_selectors =
     [DivClass ''ContentMain'', DivClass ''MainContentZone'', DivRoleMain,
      TagName ''article'', TagName ''main'']"

fun first_selected :: "elem \<Rightarrow> selector list \<Rightarrow> elem option" where
  "first_selected soup [] = None"
| "first_selected soup (sel # sels) =
     (case select_one soup sel of
        Some e \<Rightarrow> Some e
      | None \<Rightarrow> first_selected soup sels)"

text \<open>
  Then the containers found by their class:
  \<^verbatim>\<open>
      if not content_div:
          for div in soup.find_all('div', class_=lambda x: x and any(
                  c in str(x).lower() for c in ['content', 'main', 'body', 'article'])):
              if div.find('p') or div.find('h1') or div.find('h2'):
                  content_div = div
                  break
  \<close>
\<close>

definition content_class :: "pyrt \<Rightarrow> pystr option \<Rightarrow> bool" where
  "content_class rt x =
     (case x of
        None \<Rightarrow> False
      | Some s \<Rightarrow> s \<noteq> [] \<and>
          list_ex (\<lambda>c. py_in (py c) (str_lower rt s)) [''content'', ''main'', ''body'', ''article''])"

definition class_container :: "pyrt \<Rightarrow> elem \<Rightarrow> elem option" where
  "class_container rt soup =
     List.find
       (\<lambda>d. find_first (named ''p'') d \<noteq> None \<or> find_first (named ''h1'') d \<noteq> None \<or>
            find_first (named ''h2'') d \<noteq> None)
       (find_all (\<lambda>e. named ''div'' e \<and> match_class (content_class rt) (fst e)) soup)"

text \<open>
  Then \<^verbatim>\<open>content_div = soup.body if soup.body else soup\<close>, where \<open>soup.body\<close> is
  \<open>soup.find('body')\<close>.
\<close>

definition content_div :: "pyrt \<Rightarrow> elem \<Rightarrow> elem" where
  "content_div rt soup =
     (case first_selected soup content_selectors of
        Some e \<Rightarrow> e
      | None \<Rightarrow>
          (case class_container rt soup of
             Some e \<Rightarrow> e
           | None \<Rightarrow>
               (case find_first (named ''body'') soup of
                  Some b \<Rightarrow> b
                | None \<Rightarrow> soup)))"

text \<open>
  \<^verbatim>\<open>
      paragraphs = []
      for p in content_div.find_all('p', recursive=True):
          text = clean_text(p.get_text())
          if text and len(text) > 10:
              if not any(excluded in text for excluded in EXCLUDED_SECTIONS):
                  paragraphs.append(text)
  \<close>
\<close>

definition paragraphs :: "elem \<Rightarrow> pystr list" where
  "paragraphs cd =
     filter (\<lambda>text. text \<noteq> [] \<and> 10 < length text \<and>
                    \<not> list_ex (\<lambda>excluded. py_in excluded text) EXCLUDED_SECTIONS)
       (map (\<lambda>p. clean_text (get_text (fst p))) (find_all (named ''p'') cd))"

text \<open>
  \<^verbatim>\<open>
      subheadings = []
      for tag in ['h2', 'h3', 'h4', 'h5', 'h6']:
          if content_div.find(tag):
              subheadings.append(tag)
      has_bullet_lists = bool(content_div.find('ul') or content_div.find('ol'))
      has_collapsible = bool(content_div.find('h4', id=lambda x: x and 'collapse' in x.lower()))
  \<close>
\<close>

definition subheadings :: "elem \<Rightarrow> string list" where
  "subheadings cd =
     filter (\<lambda>tag. find_first (named tag) cd \<noteq> None) [''h2'', ''h3'', ''h4'', ''h5'', ''h6'']"

definition collapse_id :: "pyrt \<Rightarrow> pystr option \<Rightarrow> bool" where
  "collapse_id rt x =
     (case x of None \<Rightarrow> False | Some s \<Rightarrow> s \<noteq> [] \<and> py_in (py ''collapse'') (str_lower rt s))"

definition has_collapsible :: "pyrt \<Rightarrow> elem \<Rightarrow> bool" where
  "has_collapsible rt cd \<longleftrightarrow>
     find_first (\<lambda>e. named ''h4'' e \<and> match_attr ''id'' (collapse_id rt) (fst e)) cd \<noteq> None"

record body_content =
  main_paragraphs :: pystr
  word_count :: int
  has_subheadings :: bool
  subheading_tags :: "pystr list"
  has_bullet_lists :: bool
  has_collapsible_sections :: bool

text \<open>\<open>extract_body_content\<close> of \<open>akuh_scraper.py\<close>.\<close>

definition extract_body_content :: "pyrt \<Rightarrow> node \<Rightarrow> body_content" where
  "extract_body_content rt soup =
     (let cd = content_div rt (soup, []);
          main_text = join [10, 10] (paragraphs cd)
      in \<lparr> main_paragraphs = main_text,
           word_count = int (length (split main_text)),
           has_subheadings = (subheadings cd \<noteq> []),
           subheading_tags = map py (subheadings cd),
           has_bullet_lists =
             (find_first (named ''ul'') cd \<noteq> None \<or> find_first (named ''ol'') cd \<noteq> None),
           has_collapsible_sections = has_collapsible rt cd \<rparr>)"

text \<open>
  \<open>extract_body_content\<close> of \<open>akuh_scrape_and_upload.py\<close> also looks for the
  appointment block, in three tiers:
  \<^verbatim>\<open>
      for strong in content_div.find_all('strong'):
          strong_text = clean_text(strong.get_text())
          if 'Request an Appointment' in strong_text:
              parent = strong.find_parent(['div', 'p'])
              if parent:
                  parent_text = clean_text(parent.get_text())
                  if ('(021)111911911' in parent_text or '(021) 111911911' in parent_text) \
                          or 'Family Hifazat' in parent_text:
                      has_appointment_section = True
                      break
      if not has_appointment_section:
          for p in paragraphs:
              if 'Request an Appointment' in p:
                  if ('(021)111911911' in p or 'Family Hifazat' in p or 'Click here' in p
                          or 'call to book' in p):
                      has_appointment_section = True
                      break
      main_text = '\n\n'.join(paragraphs)
      if not has_appointment_section:
          if 'Request an Appointment' in main_text:
              if '(021)111911911' in main_text or 'Family Hifazat' in main_text:
                  has_appointment_section = True
  \<close>
\<close>

definition find_parent :: "string list \<Rightarrow> elem \<Rightarrow> node option" where
  "find_parent names e = List.find (\<lambda>a. list_ex (\<lambda>nm. tag_name a = Some (py nm)) names) (snd e)"

definition strong_tier :: "elem \<Rightarrow> bool" where
  "strong_tier cd =
     list_ex
       (\<lambda>strong. py_in (py ''Request an Appointment'') (clean_text (get_text (fst strong))) \<and>
          (case find_parent [''div'', ''p''] strong of
             None \<Rightarrow> False
           | Some parent \<Rightarrow>
               (let parent_text = clean_text (get_text parent)
                in (py_in (py ''(021)111911911'') parent_text \<or>
                    py_in (py ''(021) 111911911'') parent_text) \<or>
                   py_in (py ''Family Hifazat'') parent_text)))
       (find_all (named ''strong'') cd)"

definition paragraph_tier :: "pystr list \<Rightarrow> bool" where
  "paragraph_tier ps =
     list_ex
       (\<lambda>p. py_in (py ''Request an Appointment'') p \<and>
            (py_in (py ''(021)111911911'') p \<or> py_in (py ''Family Hifazat'') p \<or>
             py_in (py ''Click here'') p \<or> py_in (py ''call to book'') p))
       ps"

definition text_tier :: "pystr \<Rightarrow> bool" where
  "text_tier main_text \<longleftrightarrow>
     py_in (py ''Request an Appointment'') main_text \<and>
     (py_in (py ''(021)111911911'') main_text \<or> py_in (py ''Family Hifazat'') main_text)"

record body_content_su = body_content +
  has_appointment_section :: bool

definition extract_body_content_su :: "pyrt \<Rightarrow> node \<Rightarrow> body_content_su" where
  "extract_body_content_su rt soup =
     (let cd = content_div rt (soup, []);
          main_text = join [10, 10] (paragraphs cd)
      in \<lparr> main_paragraphs = main_text,
           word_count = int (length (split main_text)),
           has_subheadings = (subheadings cd \<noteq> []),
           subheading_tags = map py (subheadings cd),
           has_bullet_lists =
             (find_first (named ''ul'') cd \<noteq> None \<or> find_first (named ''ol'') cd \<noteq> None),
           has_collapsible_sections = has_collapsible rt cd,
           has_appointment_section =
             (if strong_tier cd then True
              else if paragraph_tier (paragraphs cd) then True
              else text_tier main_text) \<rparr>)"

subsection \<open>Faculty links\<close>

text \<open>
  The dictionaries of the source with the keys \<open>text\<close> and \<open>url\<close>, and for a faculty
  link \<open>specialty\<close>, for an external link \<open>type\<close>.
\<close>

record link =
  link_text :: pystr
  link_url :: pystr

record faculty_link = link +
  specialty :: pystr

record external_link = link +
  link_type :: pystr

text \<open>
  \<^verbatim>\<open>
  def extract_specialty_from_url(url):
      match = re.search(r'[?&]Spec=([^&]+)', url)
      if match:
          return match.group(1)
      return ""
  \<close>
  The first position with \<open>?\<close> or \<open>&\<close>, then \<open>Spec=\<close>, then at least one character
  other than \<open>&\<close>; the group is the longest run of such characters.
\<close>

fun search_spec :: "pystr \<Rightarrow> pystr option" where
  "search_spec [] = None"
| "search_spec (c # cs) =
     (if (c = 63 \<or> c = 38) \<and> startswith cs (py ''Spec='') \<and>
         takeWhile (\<lambda>x. x \<noteq> 38) (drop 5 cs) \<noteq> []
      then Some (takeWhile (\<lambda>x. x \<noteq> 38) (drop 5 cs))
      else search_spec cs)"

definition extract_specialty_from_url :: "pystr \<Rightarrow> pystr" where
  "extract_specialty_from_url url = (case search_spec url of Some g \<Rightarrow> g | None \<Rightarrow> [])"

text \<open>
  Pattern 1:
  \<^verbatim>\<open>
      for h4 in soup.find_all('h4'):
          link = h4.find('a', href=True)
          if link and ('/findadoctor.aspx' in link.get('href', '')):
              text = clean_text(link.get_text())
              url = link.get('href', '')
              specialty = extract_specialty_from_url(url)
              faculty_links.append({'text': text, 'url': url, 'specialty': specialty})
  \<close>
\<close>

definition faculty_entry :: "elem \<Rightarrow> faculty_link" where
  "faculty_entry a =
     \<lparr> link_text = clean_text (get_text (fst a)),
       link_url = get_or_empty (fst a) ''href'',
       specialty = extract_specialty_from_url (get_or_empty (fst a) ''href'') \<rparr>"

definition h4_links :: "elem \<Rightarrow> faculty_link list" where
  "h4_links soup =
     concat (map
       (\<lambda>h4. case find_first a_href h4 of
                None \<Rightarrow> []
              | Some a \<Rightarrow>
                  if py_in (py ''/findadoctor.aspx'') (get_or_empty (fst a) ''href'')
                  then [faculty_entry a] else [])
       (find_all (named ''h4'') soup))"

text \<open>
  Pattern 2, which goes on with the list of pattern 1:
  \<^verbatim>\<open>
      for link in soup.find_all('a', href=True):
          href = link.get('href', '')
          text = clean_text(link.get_text())
          if '/findadoctor.aspx' in href and link not in [l.get('_elem') for l in faculty_links]:
              if 'Meet our' in text or 'Find a Doctor' in text or 'faculty' in text.lower():
                  specialty = extract_specialty_from_url(href)
                  faculty_links.append({'text': text, 'url': href, 'specialty': specialty})
  \<close>
  No dictionary of the list has the key \<open>_elem\<close>, so \<open>l.get('_elem')\<close> is \<open>None\<close>.
\<close>

definition get_elem :: "faculty_link \<Rightarrow> elem option" where
  "get_elem l = None"

fun inline_links :: "pyrt \<Rightarrow> faculty_link list \<Rightarrow> elem list \<Rightarrow> faculty_link list" where
  "inline_links rt faculty_links [] = faculty_links"
| "inline_links rt faculty_links (a # as) =
     (let href = get_or_empty (fst a) ''href'';
          text = clean_text (get_text (fst a))
      in if py_in (py ''/findadoctor.aspx'') href \<and> Some a \<notin> set (map get_elem faculty_links)
         then (if py_in (py ''Meet our'') text \<or> py_in (py ''Find a Doctor'') text \<or>
                  py_in (py ''faculty'') (str_lower rt text)
               then inline_links rt (faculty_links @ [faculty_entry a]) as
               else inline_links rt faculty_links as)
         else inline_links rt faculty_links as)"

text \<open>
  \<^verbatim>\<open>
      seen = set()
      unique_links = []
      for link in faculty_links:
          key = (link['url'], link['text'])
          if key not in seen:
              seen.add(key)
              unique_links.append(link)
  \<close>
\<close>

fun remove_duplicates ::
  "(pystr \<times> pystr) set \<Rightarrow> faculty_link list \<Rightarrow> faculty_link list \<Rightarrow> faculty_link list" where
  "remove_duplicates seen unique_links [] = unique_links"
| "remove_duplicates seen unique_links (l # ls) =
     (let key = (link_url l, link_text l)
      in if key \<notin> seen then remove_duplicates (insert key seen) (unique_links @ [l]) ls
         else remove_duplicates seen unique_links ls)"

record faculty_links =
  fl_count :: int
  fl_pattern :: pystr
  fl_links :: "faculty_link list"

definition extract_faculty_links :: "pyrt \<Rightarrow> node \<Rightarrow> faculty_links" where
  "extract_faculty_links rt soup =
     (let faculty_links = inline_links rt (h4_links (soup, [])) (find_all a_href (soup, []));
          unique_links = remove_duplicates {} [] faculty_links
      in \<lparr> fl_count = int (length unique_links),
           fl_pattern =
             (if length unique_links = 1 then py ''single''
              else if 1 < length unique_links then py ''multiple''
              else py ''none''),
           fl_links = unique_links \<rparr>)"

subsection \<open>Appointment block\<close>

record click_here_link =
  cl_present :: bool
  cl_text :: pystr
  cl_url :: pystr

record family_hifazat =
  main_link_present :: bool
  google_play_button :: bool
  app_store_button :: bool

record components =
  heading :: pystr
  click_here :: click_here_link
  phone_number :: pystr
  family :: family_hifazat

record appointment =
  ap_present :: bool
  ap_components :: components

definition no_appointment :: appointment where
  "no_appointment =
     \<lparr> ap_present = False,
       ap_components =
         \<lparr> heading = [],
           click_here = \<lparr> cl_present = False, cl_text = [], cl_url = [] \<rparr>,
           phone_number = [],
           family = \<lparr> main_link_present = False, google_play_button = False,
                      app_store_button = False \<rparr> \<rparr> \<rparr>"

text \<open>
  \<^verbatim>\<open>re.search(r'\(\d{3}\)\d{3}\d{6}', text)\<close>: the leftmost position where an opening
  parenthesis, three digits, a closing parenthesis and nine digits follow each other.
\<close>

definition phone_here :: "pyrt \<Rightarrow> pystr \<Rightarrow> bool" where
  "phone_here rt s \<longleftrightarrow>
     14 \<le> length s \<and> s ! 0 = 40 \<and> list_all (re_digit rt) (take 3 (drop 1 s)) \<and> s ! 4 = 41 \<and>
     list_all (re_digit rt) (take 9 (drop 5 s))"

fun search_phone :: "pyrt \<Rightarrow> pystr \<Rightarrow> pystr option" where
  "search_phone rt [] = None"
| "search_phone rt (c # cs) =
     (if phone_here rt (c # cs) then Some (take 14 (c # cs)) else search_phone rt cs)"

text \<open>
  What the loop does at a paragraph \<open>p\<close> whose cleaned text is \<open>text\<close>, once the test on
  \<open>text\<close> has succeeded:
  \<^verbatim>\<open>
              appointment['present'] = True
              appointment['components']['heading'] = 'Request an Appointment'
              phone_match = re.search(r'\(\d{3}\)\d{3}\d{6}', text)
              if phone_match:
                  appointment['components']['phone_number'] = phone_match.group(0)
              click_link = p.find('a', href=True)
              if click_link:
                  appointment['components']['click_here_link']['present'] = True
                  appointment['components']['click_here_link']['text'] = clean_text(click_link.get_text())
                  appointment['components']['click_here_link']['url'] = click_link.get('href', '')
              if 'Family Hifazat' in text or 'family hifazat' in text.lower():
                  appointment['components']['family_hifazat']['main_link_present'] = True
              for img in p.find_all('img'):
                  src = img.get('src', '').lower()
                  if 'google play' in src or 'playstore' in src:
                      appointment['components']['family_hifazat']['google_play_button'] = True
                  if 'app store' in src or 'appstore' in src:
                      appointment['components']['family_hifazat']['app_store_button'] = True
              break
  \<close>
\<close>

definition appointment_at :: "pyrt \<Rightarrow> elem \<Rightarrow> pystr \<Rightarrow> appointment" where
  "appointment_at rt p text =
     \<lparr> ap_present = True,
       ap_components =
         \<lparr> heading = py ''Request an Appointment'',
           click_here =
             (case find_first a_href p of
                None \<Rightarrow> \<lparr> cl_present = False, cl_text = [], cl_url = [] \<rparr>
              | Some click_link \<Rightarrow>
                  \<lparr> cl_present = True,
                    cl_text = clean_text (get_text (fst click_link)),
                    cl_url = get_or_empty (fst click_link) ''href'' \<rparr>),
           phone_number = (case search_phone rt text of None \<Rightarrow> [] | Some m \<Rightarrow> m),
           family =
             \<lparr> main_link_present =
                 (py_in (py ''Family Hifazat'') text \<or>
                  py_in (py ''family hifazat'') (str_lower rt text)),
               google_play_button =
                 list_ex (\<lambda>img. py_in (py ''google play'') (str_lower rt (get_or_empty (fst img) ''src'')) \<or>
                                py_in (py ''playstore'') (str_lower rt (get_or_empty (fst img) ''src'')))
                   (find_all (named ''img'') p),
               app_store_button =
                 list_ex (\<lambda>img. py_in (py ''app store'') (str_lower rt (get_or_empty (fst img) ''src'')) \<or>
                                py_in (py ''appstore'') (str_lower rt (get_or_empty (fst img) ''src'')))
                   (find_all (named ''img'') p) \<rparr> \<rparr> \<rparr>"

text \<open>
  The test of the loop:
  \<^verbatim>\<open>if 'Request an Appointment' in text or 'request an appointment' in text.lower():\<close>
\<close>

definition requests_appointment :: "pyrt \<Rightarrow> elem \<Rightarrow> bool" where
  "requests_appointment rt p \<longleftrightarrow>
     py_in (py ''Request an Appointment'') (clean_text (get_text (fst p))) \<or>
     py_in (py ''request an appointment'') (str_lower rt (clean_text (get_text (fst p))))"

text \<open>The loop \<^verbatim>\<open>for p in soup.find_all('p'):\<close> with its \<open>break\<close>.\<close>

fun scan_paragraphs :: "pyrt \<Rightarrow> elem list \<Rightarrow> appointment" where
  "scan_paragraphs rt [] = no_appointment"
| "scan_paragraphs rt (p # ps) =
     (if requests_appointment rt p then appointment_at rt p (clean_text (get_text (fst p)))
      else scan_paragraphs rt ps)"

definition extract_appointment_section :: "pyrt \<Rightarrow> node \<Rightarrow> appointment" where
  "extract_appointment_section rt soup = scan_paragraphs rt (find_all (named ''p'') (soup, []))"

subsection \<open>External links\<close>

text \<open>
  \<^verbatim>\<open>str(link.parent.get('class', ''))\<close>: the empty string when the parent has no class
  attribute, otherwise the printed list of its class tokens. A tag below \<open>soup\<close> always
  has a parent.
\<close>

definition str_of_class :: "pyrt \<Rightarrow> node \<Rightarrow> pystr" where
  "str_of_class rt n =
     (case get_class n of
        None \<Rightarrow> []
      | Some toks \<Rightarrow> py ''['' @ join (py '', '') (map (str_repr rt) toks) @ py '']'')"

definition parent_class :: "pyrt \<Rightarrow> elem \<Rightarrow> pystr" where
  "parent_class rt e = (case snd e of [] \<Rightarrow> [] | parent # _ \<Rightarrow> str_of_class rt parent)"

text \<open>
  \<^verbatim>\<open>
          link_type = 'internal'
          if href.startswith('http') and 'aku.edu' not in href:
              link_type = 'external'
          elif href.endswith(('.pdf', '.doc', '.docx', '.xlsx')):
              link_type = 'document'
  \<close>
\<close>

definition link_type_of :: "pystr \<Rightarrow> pystr" where
  "link_type_of href =
     (if startswith href (py ''http'') \<and> \<not> py_in (py ''aku.edu'') href then py ''external''
      else if list_ex (\<lambda>ext. endswith href (py ext)) [''.pdf'', ''.doc'', ''.docx'', ''.xlsx'']
      then py ''document''
      else py ''internal'')"

text \<open>
  \<^verbatim>\<open>
      for link in soup.find_all('a', href=True):
          href = link.get('href', '')
          text = clean_text(link.get_text())
          if not text or not href:
              continue
          if '/findadoctor.aspx' in href or 'breadcrumb' in str(link.parent.get('class', '')):
              continue
          ...
          external_links.append({'text': text, 'url': href, 'type': link_type})
  \<close>
\<close>

definition skipped_link :: "pyrt \<Rightarrow> elem \<Rightarrow> bool" where
  "skipped_link rt a \<longleftrightarrow>
     (clean_text (get_text (fst a)) = [] \<or> get_or_empty (fst a) ''href'' = []) \<or>
     (py_in (py ''/findadoctor.aspx'') (get_or_empty (fst a) ''href'') \<or>
      py_in (py ''breadcrumb'') (parent_class rt a))"

definition external_entry :: "elem \<Rightarrow> external_link" where
  "external_entry a =
     \<lparr> link_text = clean_text (get_text (fst a)),
       link_url = get_or_empty (fst a) ''href'',
       link_type = link_type_of (get_or_empty (fst a) ''href'') \<rparr>"

definition extract_external_links :: "pyrt \<Rightarrow> node \<Rightarrow> external_link list" where
  "extract_external_links rt soup =
     map external_entry (filter (\<lambda>a. \<not> skipped_link rt a) (find_all a_href (soup, [])))"

section \<open>Page classifier\<close>

record subsection_links =
  sl_present :: bool
  sl_count :: int
  sl_links :: "link list"

text \<open>
  The record that \<open>scrape_page\<close> assembles. The body fragment of
  \<open>akuh_scrape_and_upload.py\<close> has one field more than that of \<open>akuh_scraper.py\<close>, so the
  type of the body is a parameter.
\<close>

record 'b page_data =
  url :: pystr
  page_title :: pystr
  breadcrumb :: pystr
  has_h1_title :: bool
  body_content :: 'b
  subsection_links :: subsection_links
  faculty_links :: faculty_links
  appointment_section :: appointment
  external_links :: "external_link list"

text \<open>
  \<^verbatim>\<open>
  def classify_page_type(data):
      if data['subsection_links']['present']:
          return 'parent_overview'
      if not data['has_h1_title']:
          return 'service_complex'
      if data['body_content']['has_collapsible_sections']:
          return 'service_complex'
      if data['faculty_links']['count'] > 3:
          return 'multi_specialty'
      if data['faculty_links']['count'] == 1 and not data['appointment_section']['present']:
          return 'simple'
      if data['body_content']['has_subheadings'] and data['faculty_links']['count'] == 0:
          return 'structured'
      return 'standard'
  \<close>
\<close>

definition classify_page_type :: "('m body_content_scheme) page_data \<Rightarrow> pystr" where
  "classify_page_type data =
     (if sl_present (subsection_links data) then py ''parent_overview''
      else if \<not> has_h1_title data then py ''service_complex''
      else if has_collapsible_sections (body_content data) then py ''service_complex''
      else if 3 < fl_count (faculty_links data) then py ''multi_specialty''
      else if fl_count (faculty_links data) = 1 \<and> \<not> ap_present (appointment_section data)
      then py ''simple''
      else if has_subheadings (body_content data) \<and> fl_count (faculty_links data) = 0
      then py ''structured''
      else py ''standard'')"

text \<open>
  The decision list as the specification words it: an ordered sequence of pairs of a
  predicate and a result, read from the top, the first match winning, with a default.
\<close>

fun first_match :: "(('a \<Rightarrow> bool) \<times> 'r) list \<Rightarrow> 'r \<Rightarrow> 'a \<Rightarrow> 'r" where
  "first_match [] dflt d = dflt"
| "first_match ((P, r) # rules) dflt d = (if P d then r else first_match rules dflt d)"

definition spec_rules :: "((('m body_content_scheme) page_data \<Rightarrow> bool) \<times> pystr) list" where
  "spec_rules =
     [(\<lambda>d. sl_present (subsection_links d), py ''parent_overview''),
      (\<lambda>d. \<not> has_h1_title d, py ''service_complex''),
      (\<lambda>d. has_collapsible_sections (body_content d), py ''service_complex''),
      (\<lambda>d. fl_count (faculty_links d) > 3, py ''multi_specialty''),
      (\<lambda>d. fl_count (faculty_links d) = 1 \<and> \<not> ap_present (appointment_section d), py ''simple''),
      (\<lambda>d. has_subheadings (body_content d) \<and> fl_count (faculty_links d) = 0, py ''structured'')]"

section \<open>Publishing\<close>

subsection \<open>Slugs\<close>

text \<open>
  \<^verbatim>\<open>
  def slugify(s: str, max_len: int = 90) -> str:
      s = (s or "").strip().lower()
      s = re.sub(r"[^\w\s-]", "", s, flags=re.UNICODE)
      s = re.sub(r"[\s_-]+", "-", s, flags=re.UNICODE).strip("-")
      if not s:
          s = f"service-{int(time.time())}"
      return s[:max_len].rstrip("-")
  \<close>
  \<open>now\<close> is the value of \<open>int(time.time())\<close>. The hyphen is the code point 45, the
  underscore 95.
\<close>

definition slugify :: "pyrt \<Rightarrow> int \<Rightarrow> pystr \<Rightarrow> int \<Rightarrow> pystr" where
  "slugify rt now s max_len =
     (let s1 = str_lower rt (strip s);
          s2 = filter (\<lambda>c. re_word rt c \<or> is_space c \<or> c = 45) s1;
          s3 = strip_with (\<lambda>c. c = 45) (sub_runs (\<lambda>c. is_space c \<or> c = 95 \<or> c = 45) [45] s2);
          s4 = (if s3 = [] then py ''service-'' @ str_of_int now else s3)
      in rstrip_with (\<lambda>c. c = 45) (slice_to max_len s4))"

subsection \<open>The upload loop\<close>

text \<open>
  What \<open>run_upload\<close> reads from the JSON object of a file: \<open>data.get("page_title")\<close>,
  \<open>data.get("body_content", {}).get("main_paragraphs")\<close> and \<open>data.get("hero_image")\<close>,
  each \<open>None\<close> when the key is missing or null. A file is its path and its object, or
  \<open>None\<close> when reading or parsing it raises.
\<close>

record stored_page =
  sp_page_title :: "pystr option"
  sp_main_paragraphs :: "pystr option"
  sp_hero_image :: "pystr option"

type_synonym json_file = "pystr \<times> stored_page option"

text \<open>
  The remote side. A request to create a story is answered by the story, by the HTTP
  status 422 for a slug that is taken, or by another failure. The requests that the
  upload of a hero image makes, and the numbers drawn by \<open>random.randint\<close> and
  \<open>time.time\<close>, are given with it.
\<close>

datatype response = Created | SlugTaken | Refused

datatype remote_call = CreateStory pystr pystr pystr | UploadImage pystr

record world =
  api :: "pystr \<Rightarrow> pystr \<Rightarrow> response"
  image_calls :: "pystr \<Rightarrow> pystr \<Rightarrow> remote_call list"
  randint :: int
  clock :: int

text \<open>
  \<^verbatim>\<open>
      base_slug = slugify(title)
      for slug in [base_slug, f"{base_slug}-{random.randint(1000, 9999)}", f"{base_slug}-{int(time.time())}"]:
          try:
              ...
              result = client.create_story(title, slug, content, parent_id=parent_id, publish=publish)
              ...
              return story
          except HTTPError as he:
              resp = getattr(he, "response", None)
              if resp and resp.status_code == 422 and (...):
                  continue
              return None
          except Exception as e:
              return None
      return None
  \<close>
  The result says whether a story came back, and lists the requests made.
\<close>

fun create_attempts ::
  "(pystr \<Rightarrow> pystr \<Rightarrow> response) \<Rightarrow> pystr \<Rightarrow> pystr \<Rightarrow> pystr list \<Rightarrow> bool \<times> remote_call list" where
  "create_attempts f title description [] = (False, [])"
| "create_attempts f title description (slug # slugs) =
     (case f title slug of
        Created \<Rightarrow> (True, [CreateStory title slug description])
      | SlugTaken \<Rightarrow>
          (case create_attempts f title description slugs of
             (ok, calls) \<Rightarrow> (ok, CreateStory title slug description # calls))
      | Refused \<Rightarrow> (False, [CreateStory title slug description]))"

definition create_storyblok_story ::
  "pyrt \<Rightarrow> world \<Rightarrow> pystr \<Rightarrow> pystr \<Rightarrow> bool \<times> remote_call list" where
  "create_storyblok_story rt w title description =
     (let base_slug = slugify rt (clock w) title 90
      in create_attempts (api w) title description
           [base_slug, base_slug @ [45] @ str_of_int (randint w),
            base_slug @ [45] @ str_of_int (clock w)])"

record upload_state =
  uploaded_count :: int
  failed_count :: int
  calls :: "remote_call list"

text \<open>\<open>x or ""\<close> for an optional string.\<close>

definition or_empty :: "pystr option \<Rightarrow> pystr" where
  "or_empty x = (case x of None \<Rightarrow> [] | Some s \<Rightarrow> s)"

text \<open>
  The end of the loop body, the same in both files: the hero image if there is one, the
  story, and the counters.
  \<^verbatim>\<open>
          hero = data.get("hero_image")
          ...
          image_asset = upload_image_to_storyblok(client, hero_path, asset_folder_id) if hero_path else None
          story = create_storyblok_story(client, title, description, image_asset, ...)
          if story:
              uploaded_count += 1
          else:
              failed_count += 1
  \<close>
\<close>

definition publish_record ::
  "pyrt \<Rightarrow> world \<Rightarrow> upload_state \<Rightarrow> pystr \<Rightarrow> stored_page \<Rightarrow> pystr \<Rightarrow> pystr \<Rightarrow> upload_state" where
  "publish_record rt w st jp data title description =
     (let image = (if or_empty (sp_hero_image data) = [] then []
                   else image_calls w jp (or_empty (sp_hero_image data)))
      in case create_storyblok_story rt w title description of
           (story, requests) \<Rightarrow>
             (if story
              then st\<lparr> uploaded_count := uploaded_count st + 1,
                      calls := calls st @ image @ requests \<rparr>
              else st\<lparr> failed_count := failed_count st + 1,
                      calls := calls st @ image @ requests \<rparr>))"

text \<open>
  The loop of \<open>run_upload\<close> in \<open>akuh_uploader.py\<close>:
  \<^verbatim>\<open>
      for jp in json_paths:
          try:
              data = json.loads(jp.read_text(encoding="utf-8"))
          except Exception as e:
              logger.error(f"Skip {jp}: {e}")
              failed_count += 1
              continue
          title = (data.get("page_title") or "").strip()
          if not title:
              logger.error(f"Skip {jp}: no title")
              failed_count += 1
              continue
          description = (data.get("body_content", {}).get("main_paragraphs") or "").strip()
          if not description:
              logger.warning(f"No description for {title}")
          ...
  \<close>
\<close>

fun upload_loop :: "pyrt \<Rightarrow> world \<Rightarrow> upload_state \<Rightarrow> json_file list \<Rightarrow> upload_state" where
  "upload_loop rt w st [] = st"
| "upload_loop rt w st ((jp, None) # files) =
     upload_loop rt w (st\<lparr> failed_count := failed_count st + 1 \<rparr>) files"
| "upload_loop rt w st ((jp, Some data) # files) =
     (let title = strip (or_empty (sp_page_title data))
      in if title = [] then upload_loop rt w (st\<lparr> failed_count := failed_count st + 1 \<rparr>) files
         else upload_loop rt w
                (publish_record rt w st jp data title (strip (or_empty (sp_main_paragraphs data))))
                files)"

definition run_upload :: "pyrt \<Rightarrow> world \<Rightarrow> json_file list \<Rightarrow> upload_state" where
  "run_upload rt w json_paths =
     upload_loop rt w \<lparr> uploaded_count = 0, failed_count = 0, calls = [] \<rparr> json_paths"

text \<open>
  The loop of \<open>run_upload\<close> in \<open>akuh_scrape_and_upload.py\<close>, which also validates the
  body:
  \<^verbatim>\<open>
          # Validation: Check main_paragraphs is not empty
          description = (data.get("body_content", {}).get("main_paragraphs") or "").strip()
          if not description:
              logger.error(f"Skip {jp}: main_paragraphs is empty")
              failed_count += 1
              continue
  \<close>
\<close>

fun upload_loop_su :: "pyrt \<Rightarrow> world \<Rightarrow> upload_state \<Rightarrow> json_file list \<Rightarrow> upload_state" where
  "upload_loop_su rt w st [] = st"
| "upload_loop_su rt w st ((jp, None) # files) =
     upload_loop_su rt w (st\<lparr> failed_count := failed_count st + 1 \<rparr>) files"
| "upload_loop_su rt w st ((jp, Some data) # files) =
     (let title = strip (or_empty (sp_page_title data))
      in if title = [] then upload_loop_su rt w (st\<lparr> failed_count := failed_count st + 1 \<rparr>) files
         else (let description = strip (or_empty (sp_main_paragraphs data))
               in if description = []
                  then upload_loop_su rt w (st\<lparr> failed_count := failed_count st + 1 \<rparr>) files
                  else upload_loop_su rt w (publish_record rt w st jp data title description) files))"

definition run_upload_su :: "pyrt \<Rightarrow> world \<Rightarrow> json_file list \<Rightarrow> upload_state" where
  "run_upload_su rt w json_paths =
     upload_loop_su rt w \<lparr> uploaded_count = 0, failed_count = 0, calls = [] \<rparr> json_paths"

section \<open>The link classification as the specification words it\<close>

text \<open>
  The specification classifies a link as \<open>external\<close> if the URL is absolute and its host
  is not the organization's own domain, as \<open>document\<close> if it ends in a known document
  extension, else as \<open>internal\<close>. Read on the URLs of web pages: a URL is absolute when
  it starts with the scheme \<open>http://\<close> or \<open>https://\<close>; its host is what follows the
  scheme up to the first slash, colon, question mark or hash; the host is the
  organization's own when it is \<open>aku.edu\<close> or ends in \<open>.aku.edu\<close>.
\<close>

definition spec_absolute :: "pystr \<Rightarrow> bool" where
  "spec_absolute u \<longleftrightarrow> startswith u (py ''http://'') \<or> startswith u (py ''https://'')"

definition spec_host :: "pystr \<Rightarrow> pystr" where
  "spec_host u =
     takeWhile (\<lambda>c. c \<noteq> 47 \<and> c \<noteq> 58 \<and> c \<noteq> 63 \<and> c \<noteq> 35)
       (drop (if startswith u (py ''https://'') then 8 else 7) u)"

definition spec_own_host :: "pystr \<Rightarrow> bool" where
  "spec_own_host h \<longleftrightarrow> h = py ''aku.edu'' \<or> endswith h (py ''.aku.edu'')"

definition spec_link_type :: "pystr \<Rightarrow> pystr" where
  "spec_link_type u =
     (if spec_absolute u \<and> \<not> spec_own_host (spec_host u) then py ''external''
      else if list_ex (\<lambda>ext. endswith u (py ext)) [''.pdf'', ''.doc'', ''.docx'', ''.xlsx'']
      then py ''document''
      else py ''internal'')"

section \<open>The content region as the specification words it\<close>

text \<open>
  The specification takes, as second choice, the first container whose class contains
  one of the four words and which holds at least one paragraph or heading node, a
  heading being a tag \<open>h1\<close> to \<open>h6\<close>. The other choices are those of \<open>content_div\<close>.
\<close>

definition spec_class_container :: "pyrt \<Rightarrow> elem \<Rightarrow> elem option" where
  "spec_class_container rt soup =
     List.find
       (\<lambda>d. find_first (named ''p'') d \<noteq> None \<or>
            list_ex (\<lambda>h. find_first (named h) d \<noteq> None) [''h1'', ''h2'', ''h3'', ''h4'', ''h5'', ''h6''])
       (find_all (\<lambda>e. named ''div'' e \<and> match_class (content_class rt) (fst e)) soup)"

definition spec_content_region :: "pyrt \<Rightarrow> elem \<Rightarrow> elem" where
  "spec_content_region rt soup =
     (case first_selected soup content_selectors of
        Some e \<Rightarrow> e
      | None \<Rightarrow>
          (case spec_class_container rt soup of
             Some e \<Rightarrow> e
           | None \<Rightarrow>
               (case find_first (named ''body'') soup of
                  Some b \<Rightarrow> b
                | None \<Rightarrow> soup)))"

section \<open>Sample records and documents\<close>

text \<open>Records on which the classifier is run: the fragments an empty page gives.\<close>

definition no_body :: body_content where
  "no_body =
     \<lparr> main_paragraphs = [], word_count = 0, has_subheadings = False, subheading_tags = [],
       has_bullet_lists = False, has_collapsible_sections = False \<rparr>"

definition links_of_count :: "int \<Rightarrow> faculty_links" where
  "links_of_count n = \<lparr> fl_count = n, fl_pattern = py ''multiple'', fl_links = [] \<rparr>"

text \<open>
  An overview page: subsection links, and also ten faculty links, collapsible sections
  and no primary heading.
\<close>

definition overview_page :: "body_content page_data" where
  "overview_page =
     \<lparr> url = py ''https://hospitals.aku.edu/a'', page_title = py ''Departments'',
       breadcrumb = [], has_h1_title = False,
       body_content = no_body\<lparr> has_collapsible_sections := True \<rparr>,
       subsection_links =
         \<lparr> sl_present = True, sl_count = 1,
           sl_links = [\<lparr> link_text = py ''Cardiology'', link_url = py ''/cardiology'' \<rparr>] \<rparr>,
       faculty_links = links_of_count 10,
       appointment_section = no_appointment,
       external_links = [] \<rparr>"

text \<open>A page without primary heading and with ten faculty links.\<close>

definition headless_page :: "body_content page_data" where
  "headless_page =
     \<lparr> url = py ''https://hospitals.aku.edu/b'', page_title = py ''Untitled'',
       breadcrumb = [], has_h1_title = False,
       body_content = no_body,
       subsection_links = \<lparr> sl_present = False, sl_count = 0, sl_links = [] \<rparr>,
       faculty_links = links_of_count 10,
       appointment_section = no_appointment,
       external_links = [] \<rparr>"

text \<open>
  The same page as \<open>headless_page\<close> for the classifier, with another address, title,
  breadcrumb, body text and external links, and with the body fragment of
  \<open>akuh_scrape_and_upload.py\<close>.
\<close>

definition headless_page_su :: "body_content_su page_data" where
  "headless_page_su =
     \<lparr> url = py ''https://hospitals.aku.edu/c'', page_title = py ''Oncology'',
       breadcrumb = py ''Home > Oncology'', has_h1_title = False,
       body_content =
         \<lparr> main_paragraphs = py ''Cancer care at the hospital.'', word_count = 5,
           has_subheadings = False, subheading_tags = [], has_bullet_lists = True,
           has_collapsible_sections = False, has_appointment_section = True \<rparr>,
       subsection_links = \<lparr> sl_present = False, sl_count = 0, sl_links = [] \<rparr>,
       faculty_links = \<lparr> fl_count = 10, fl_pattern = py ''multiple'', fl_links = [] \<rparr>,
       appointment_section = no_appointment,
       external_links =
         [\<lparr> link_text = py ''WHO'', link_url = py ''https://www.who.int'',
            link_type = py ''external'' \<rparr>] \<rparr>"

text \<open>
  \<^verbatim>\<open><h1> </h1><h2>Cardiology</h2>\<close>: a page whose first level-1 heading holds only a
  space, and \<^verbatim>\<open><h1>Cardiology</h1>\<close>.
\<close>

definition blank_h1_page :: node where
  "blank_h1_page =
     Tag (py ''[document]'') []
       [Tag (py ''h1'') [] [NavigableString (py '' '')],
        Tag (py ''h2'') [] [NavigableString (py ''Cardiology'')]]"

definition cardiology_page :: node where
  "cardiology_page =
     Tag (py ''[document]'') [] [Tag (py ''h1'') [] [NavigableString (py ''Cardiology'')]]"

text \<open>
  \<^verbatim>\<open><h4><a href="/findadoctor.aspx?Spec=Cardiology">Meet our faculty</a></h4>\<close>: the link
  is collected by both patterns of the faculty extractor.
\<close>

definition faculty_page :: node where
  "faculty_page =
     Tag (py ''[document]'') []
       [Tag (py ''h4'') []
          [Tag (py ''a'') [(py ''href'', py ''/findadoctor.aspx?Spec=Cardiology'')]
             [NavigableString (py ''Meet our faculty'')]]]"

text \<open>
  A remote side that accepts every story and has no image to upload, and two stored
  pages: one with the title \<open>Cardiology\<close> and an empty body text, one complete.
\<close>

definition accepting :: world where
  "accepting =
     \<lparr> api = (\<lambda>title slug. Created), image_calls = (\<lambda>jp hero. []), randint = 1234,
       clock = 1700000000 \<rparr>"

definition bodyless_file :: json_file where
  "bodyless_file =
     (py ''1_Cardiology.json'',
      Some \<lparr> sp_page_title = Some (py ''Cardiology''), sp_main_paragraphs = Some [],
             sp_hero_image = None \<rparr>)"

definition complete_file :: json_file where
  "complete_file =
     (py ''2_Oncology.json'',
      Some \<lparr> sp_page_title = Some (py ''Oncology''),
             sp_main_paragraphs = Some (py ''Cancer care at the hospital.''),
             sp_hero_image = None \<rparr>)"

text \<open>
  A page with three paragraphs: one without the phrase, one with the phrase, a phone
  number, the application's name and a link, and a later one with the phrase in lower
  case and another phone number.
  \<^verbatim>\<open>
  <h1>Cardiology</h1>
  <p>The cardiology service offers care.</p>
  <p>Request an Appointment: call (021)111911911 or use Family Hifazat.
     <a href="/appointment">Click here</a></p>
  <p>You can also request an appointment at (042)222222222.</p>
  \<close>
\<close>

definition intro_p :: node where
  "intro_p = Tag (py ''p'') [] [NavigableString (py ''The cardiology service offers care.'')]"

definition request_p :: node where
  "request_p =
     Tag (py ''p'') []
       [NavigableString (py ''Request an Appointment: call (021)111911911 or use Family Hifazat. ''),
        Tag (py ''a'') [(py ''href'', py ''/appointment'')] [NavigableString (py ''Click here'')]]"

definition later_p :: node where
  "later_p =
     Tag (py ''p'') []
       [NavigableString (py ''You can also request an appointment at (042)222222222.'')]"

definition appointment_page :: node where
  "appointment_page =
     Tag (py ''[document]'') []
       [Tag (py ''h1'') [] [NavigableString (py ''Cardiology'')], intro_p, request_p, later_p]"

text \<open>
  Two links to other sites in a footer; the address of the first contains the name of
  the organization's domain in its path.
  \<^verbatim>\<open>
  <div class="footer">
    <a href="https://www.linkedin.com/school/aku.edu">LinkedIn</a>
    <a href="https://www.who.int/report.pdf">WHO report</a>
  </div>
  \<close>
\<close>

definition linkedin_a :: node where
  "linkedin_a =
     Tag (py ''a'') [(py ''href'', py ''https://www.linkedin.com/school/aku.edu'')]
       [NavigableString (py ''LinkedIn'')]"

definition who_a :: node where
  "who_a =
     Tag (py ''a'') [(py ''href'', py ''https://www.who.int/report.pdf'')]
       [NavigableString (py ''WHO report'')]"

definition footer_div :: node where
  "footer_div = Tag (py ''div'') [(py ''class'', py ''footer'')] [linkedin_a, who_a]"

definition partner_page :: node where
  "partner_page = Tag (py ''[document]'') [] [footer_div]"

text \<open>
  A page with two containers found by their class: the first holds a level-3 heading
  only, the second a paragraph.
  \<^verbatim>\<open>
  <body>
    <div class="page-content"><h3>Our services</h3></div>
    <div class="main-body"><p>The clinic offers outpatient care.</p></div>
  </body>
  \<close>
\<close>

definition heading_div :: node where
  "heading_div =
     Tag (py ''div'') [(py ''class'', py ''page-content'')]
       [Tag (py ''h3'') [] [NavigableString (py ''Our services'')]]"

definition text_div :: node where
  "text_div =
     Tag (py ''div'') [(py ''class'', py ''main-body'')]
       [Tag (py ''p'') [] [NavigableString (py ''The clinic offers outpatient care.'')]]"

definition services_body :: node where
  "services_body = Tag (py ''body'') [] [heading_div, text_div]"

definition services_page :: node where
  "services_page = Tag (py ''[document]'') [] [services_body]"

text \<open>
  A page where \<open>main\<close> comes before \<open>article\<close> in the document, and a page with a body
  and nothing else to go by.
  \<^verbatim>\<open>
  <body><main><p>Visiting hours are posted at the entrance.</p></main>
        <article><h2>News</h2></article></body>
  \<close>
  \<^verbatim>\<open>
  <body><p>Welcome to the outpatient clinic.</p></body>
  \<close>
\<close>

definition main_tag :: node where
  "main_tag =
     Tag (py ''main'') []
       [Tag (py ''p'') [] [NavigableString (py ''Visiting hours are posted at the entrance.'')]]"

definition article_tag :: node where
  "article_tag = Tag (py ''article'') [] [Tag (py ''h2'') [] [NavigableString (py ''News'')]]"

definition article_body :: node where
  "article_body = Tag (py ''body'') [] [main_tag, article_tag]"

definition article_page :: node where
  "article_page = Tag (py ''[document]'') [] [article_body]"

definition plain_body :: node where
  "plain_body =
     Tag (py ''body'') []
       [Tag (py ''p'') [] [NavigableString (py ''Welcome to the outpatient clinic.'')]]"

definition plain_page :: node where
  "plain_page = Tag (py ''[document]'') [] [plain_body]"

section \<open>Notions used in the proofs\<close>

text \<open>
  A string is whitespace-normal when its only whitespace characters are single spaces
  (U+0020), none next to another.
\<close>

fun ws_normal :: "pystr \<Rightarrow> bool" where
  "ws_normal [] = True"
| "ws_normal [c] = (is_space c \<longrightarrow> c = 32)"
| "ws_normal (c # d # cs) = ((is_space c \<longrightarrow> c = 32 \<and> \<not> is_space d) \<and> ws_normal (d # cs))"

text \<open>
  A text is visible when it has a character that is neither whitespace nor the zero
  width space.
\<close>

definition visible :: "pystr \<Rightarrow> bool" where
  "visible s \<longleftrightarrow> list_ex (\<lambda>c. \<not> is_space c \<and> c \<noteq> 8203) s"

text \<open>The heading that \<open>extract_title\<close> reads: the first \<open>h1\<close>, else the first \<open>h2\<close>.\<close>

definition title_heading :: "node \<Rightarrow> elem option" where
  "title_heading soup =
     (case find_first (named ''h1'') (soup, []) of
        Some h1 \<Rightarrow> Some h1
      | None \<Rightarrow> find_first (named ''h2'') (soup, []))"

text \<open>
  The string that \<open>slugify\<close> has before its test \<open>if not s\<close>: lowercased, without the
  characters that are neither word characters, whitespace nor hyphens, every run of
  whitespace, underscores and hyphens replaced by one hyphen, and the hyphens at both
  ends removed.
\<close>

definition slug_normal :: "pyrt \<Rightarrow> pystr \<Rightarrow> pystr" where
  "slug_normal rt s =
     strip_with (\<lambda>c. c = 45)
       (sub_runs (\<lambda>c. is_space c \<or> c = 95 \<or> c = 45) [45]
          (filter (\<lambda>c. re_word rt c \<or> is_space c \<or> c = 45) (str_lower rt (strip s))))"

text \<open>
  The position \<open>i\<close> is the leftmost one at which the phone pattern matches in \<open>s\<close>.
\<close>

definition leftmost_phone :: "pyrt \<Rightarrow> pystr \<Rightarrow> nat \<Rightarrow> bool" where
  "leftmost_phone rt s i \<longleftrightarrow>
     phone_here rt (drop i s) \<and> list_all (\<lambda>j. \<not> phone_here rt (drop j s)) [0..<i]"

text \<open>
  The containers that the second choice of \<open>content_div\<close> goes through, and its test on
  each of them.
\<close>

definition class_divs :: "pyrt \<Rightarrow> elem \<Rightarrow> elem list" where
  "class_divs rt soup =
     find_all (\<lambda>e. named ''div'' e \<and> match_class (content_class rt) (fst e)) soup"

definition holds_text :: "elem \<Rightarrow> bool" where
  "holds_text d \<longleftrightarrow>
     find_first (named ''p'') d \<noteq> None \<or> find_first (named ''h1'') d \<noteq> None \<or>
     find_first (named ''h2'') d \<noteq> None"

section \<open>Running the functions on concrete input\<close>

lemmas str_defs = py_def clean_text_def replace_char_def strip_def strip_with_def
  lstrip_with_def rstrip_with_def is_space_def startswith_def endswith_def Let_def

lemmas tree_defs = find_first_def find_all_def named_def a_href_def has_href_def
  get_or_empty_def get_class_def split_def

lemmas rt_defs = ascii_rt_def ascii_lower_def ascii_digit_def ascii_word_def

section \<open>Properties of the string operations\<close>

lemma dropWhile_hd: "dropWhile P xs = [] \<or> \<not> P (hd (dropWhile P xs))"
  by (metis hd_dropWhile)

lemma sub_runs_hd:
  "xs = [] \<or> \<not> P (hd xs) \<Longrightarrow> sub_runs P r xs = [] \<or> \<not> P (hd (sub_runs P r xs))"
  by (cases xs) auto

lemma ws_normal_cons:
  "ws_normal (c # xs) \<longleftrightarrow>
     (is_space c \<longrightarrow> c = 32 \<and> (xs = [] \<or> \<not> is_space (hd xs))) \<and> ws_normal xs"
  by (cases xs) auto

lemma ws_normal_sub_runs: "ws_normal (sub_runs is_space [32] s)"
proof (induction is_space "[32::nat]" s rule: sub_runs.induct)
  case 1
  show ?case by simp
next
  case (2 c cs)
  show ?case
  proof (cases "is_space c")
    case True
    with 2 have "ws_normal (sub_runs is_space [32] (dropWhile is_space cs))" by simp
    moreover have "sub_runs is_space [32] (dropWhile is_space cs) = [] \<or>
        \<not> is_space (hd (sub_runs is_space [32] (dropWhile is_space cs)))"
      by (rule sub_runs_hd) (rule dropWhile_hd)
    ultimately show ?thesis using True by (simp add: ws_normal_cons)
  next
    case False
    with 2 show ?thesis by (simp add: ws_normal_cons)
  qed
qed

lemma sub_runs_fixed: "ws_normal s \<Longrightarrow> sub_runs is_space [32] s = s"
proof (induction s rule: ws_normal.induct)
  case 1
  show ?case by simp
next
  case (2 c)
  then show ?case by simp
next
  case (3 c d cs)
  then show ?case by (cases "is_space c") auto
qed

lemma ws_normal_tl: "ws_normal (c # xs) \<Longrightarrow> ws_normal xs"
  by (simp add: ws_normal_cons)

lemma ws_normal_dropWhile: "ws_normal s \<Longrightarrow> ws_normal (dropWhile P s)"
  by (induction s) (auto dest: ws_normal_tl)

lemma ws_normal_prefix: "ws_normal (xs @ ys) \<Longrightarrow> ws_normal xs"
proof (induction xs rule: ws_normal.induct)
  case 1
  show ?case by simp
next
  case (2 c)
  then show ?case by (simp add: ws_normal_cons)
next
  case (3 c d cs)
  then show ?case by simp
qed

lemma rstrip_with_prefix: "s = rstrip_with P s @ rev (takeWhile P (rev s))"
  unfolding rstrip_with_def
  by (metis rev_append rev_rev_ident takeWhile_dropWhile_id)

lemma ws_normal_strip: "ws_normal s \<Longrightarrow> ws_normal (strip s)"
  unfolding strip_def strip_with_def lstrip_with_def
  by (metis rstrip_with_prefix ws_normal_dropWhile ws_normal_prefix)

lemma set_rstrip_with: "set (rstrip_with P s) \<subseteq> set s"
  unfolding rstrip_with_def by (metis set_dropWhileD set_rev subsetI)

lemma set_strip_with: "set (strip_with P s) \<subseteq> set s"
  unfolding strip_with_def lstrip_with_def using set_rstrip_with set_dropWhileD by fastforce

lemma set_sub_runs: "set (sub_runs P r s) \<subseteq> set r \<union> set s"
  by (induction P r s rule: sub_runs.induct) (auto dest: set_dropWhileD)

lemma replace_char_absent: "old \<notin> set s \<Longrightarrow> replace_char old new s = s"
  unfolding replace_char_def by (induction s) auto

lemma set_replace_char: "set (replace_char old new s) \<subseteq> (set s - {old}) \<union> set new"
  unfolding replace_char_def by (induction s) auto

lemma lstrip_with_fixed: "s = [] \<or> \<not> P (hd s) \<Longrightarrow> lstrip_with P s = s"
  unfolding lstrip_with_def by (cases s) auto

lemma rstrip_with_fixed: "s = [] \<or> \<not> P (last s) \<Longrightarrow> rstrip_with P s = s"
  unfolding rstrip_with_def by (cases s rule: rev_cases) auto

lemma rstrip_with_last: "rstrip_with P s = [] \<or> \<not> P (last (rstrip_with P s))"
  unfolding rstrip_with_def by (metis dropWhile_hd last_rev rev_is_Nil_conv)

lemma rstrip_with_keeps_hd:
  assumes "\<not> P x"
  shows "rstrip_with P (x # t) = x # rev (dropWhile P (rev t))"
  using assms by (simp add: rstrip_with_def dropWhile_append)

lemma rstrip_with_hd:
  "s = [] \<or> \<not> P (hd s) \<Longrightarrow> rstrip_with P s = [] \<or> \<not> P (hd (rstrip_with P s))"
proof (cases s)
  case Nil
  then show ?thesis by (simp add: rstrip_with_def)
next
  case (Cons x t)
  assume "s = [] \<or> \<not> P (hd s)"
  with Cons have "\<not> P x" by simp
  then show ?thesis using Cons by (simp add: rstrip_with_keeps_hd)
qed

lemma strip_with_hd: "strip_with P s = [] \<or> \<not> P (hd (strip_with P s))"
  unfolding strip_with_def lstrip_with_def by (rule rstrip_with_hd) (rule dropWhile_hd)

lemma strip_with_idem: "strip_with P (strip_with P s) = strip_with P s"
proof -
  let ?z = "strip_with P s"
  have l: "lstrip_with P ?z = ?z" by (rule lstrip_with_fixed) (rule strip_with_hd)
  have "rstrip_with P ?z = ?z"
    unfolding strip_with_def [of P s] by (rule rstrip_with_fixed) (rule rstrip_with_last)
  with l show ?thesis unfolding strip_with_def [of P ?z] by simp
qed

lemma clean_text_normal:
  "8203 \<notin> set (clean_text s) \<and> 160 \<notin> set (clean_text s) \<and> ws_normal (clean_text s)"
proof -
  let ?a = "replace_char 8203 [] s"
  let ?b = "replace_char 160 [32] ?a"
  let ?c = "sub_runs is_space [32] ?b"
  have a: "8203 \<notin> set ?a" using set_replace_char [of 8203 "[]" s] by auto
  have b: "8203 \<notin> set ?b \<and> 160 \<notin> set ?b"
    using a set_replace_char [of 160 "[32]" ?a] by auto
  have c: "8203 \<notin> set ?c \<and> 160 \<notin> set ?c"
    using b set_sub_runs [of is_space "[32]" ?b] by auto
  have d: "8203 \<notin> set (strip ?c) \<and> 160 \<notin> set (strip ?c)"
    using c set_strip_with [of is_space ?c] by (auto simp: strip_def)
  have "ws_normal (strip ?c)" by (rule ws_normal_strip) (rule ws_normal_sub_runs)
  with d show ?thesis by (simp add: clean_text_def)
qed

section \<open>The text normalizer is idempotent\<close>

text \<open>
  C6. For every string \<open>s\<close>, normalizing the normalized string changes nothing:
  \<open>clean_text (clean_text s) = clean_text s\<close>, where \<open>clean_text\<close> removes U+200B, turns
  U+00A0 into a space, replaces every run of whitespace by one space and strips the ends.
\<close>

theorem clean_text_idempotent: "clean_text (clean_text s) = clean_text s"
proof -
  let ?z = "clean_text s"
  have n: "8203 \<notin> set ?z" "160 \<notin> set ?z" "ws_normal ?z"
    using clean_text_normal [of s] by simp_all
  have "clean_text ?z = strip ?z"
    unfolding clean_text_def [of ?z]
    by (simp add: replace_char_absent n sub_runs_fixed)
  also have "\<dots> = ?z"
    unfolding clean_text_def [of s] strip_def by (rule strip_with_idem)
  finally show ?thesis .
qed

theorem clean_text_idempotent_witness:
  "clean_text (py '' a  b '') = py ''a b'' \<and>
   clean_text (clean_text (py '' a  b '')) = py ''a b''"
proof -
  have "clean_text (py '' a  b '') = py ''a b''" by (simp add: str_defs)
  with clean_text_idempotent [of "py '' a  b ''"] show ?thesis by simp
qed

section \<open>The page classifier\<close>

lemma py_literals_distinct:
  "py ''service_complex'' \<noteq> py ''multi_specialty''"
  by (simp add: py_def)

text \<open>
  C1. \<open>classify_page_type\<close> is the ordered first-match decision list of the
  specification: subsection links present gives \<open>parent_overview\<close>; else no primary
  heading gives \<open>service_complex\<close>; else collapsible sections give \<open>service_complex\<close>;
  else more than three faculty links give \<open>multi_specialty\<close>; else exactly one faculty
  link and no appointment section give \<open>simple\<close>; else subheadings and no faculty link
  give \<open>structured\<close>; else \<open>standard\<close>. In particular a record with subsection links is
  \<open>parent_overview\<close> whatever its other fields are, and a record without primary
  heading and with ten faculty links (to which rule 1 does not apply) is
  \<open>service_complex\<close>, not \<open>multi_specialty\<close>.
\<close>

theorem classify_page_type_decision_list:
  "classify_page_type d = first_match spec_rules (py ''standard'') d \<and>
   (sl_present (subsection_links d) \<longrightarrow> classify_page_type d = py ''parent_overview'') \<and>
   (\<not> sl_present (subsection_links d) \<and> \<not> has_h1_title d \<and> fl_count (faculty_links d) = 10 \<longrightarrow>
      classify_page_type d = py ''service_complex'' \<and>
      classify_page_type d \<noteq> py ''multi_specialty'')"
  using py_literals_distinct by (simp add: classify_page_type_def spec_rules_def)

theorem classify_page_type_decision_list_witness:
  "sl_present (subsection_links overview_page) \<and>
   classify_page_type overview_page = py ''parent_overview'' \<and>
   \<not> sl_present (subsection_links headless_page) \<and> \<not> has_h1_title headless_page \<and>
   fl_count (faculty_links headless_page) = 10 \<and>
   classify_page_type headless_page = py ''service_complex''"
proof -
  have a: "sl_present (subsection_links overview_page)"
    by (simp add: overview_page_def)
  have b: "\<not> sl_present (subsection_links headless_page) \<and> \<not> has_h1_title headless_page \<and>
      fl_count (faculty_links headless_page) = 10"
    by (simp add: headless_page_def links_of_count_def)
  from a classify_page_type_decision_list [of overview_page]
  have "classify_page_type overview_page = py ''parent_overview''" by blast
  moreover from b classify_page_type_decision_list [of headless_page]
  have "classify_page_type headless_page = py ''service_complex''" by blast
  ultimately show ?thesis using a b by blast
qed

text \<open>
  C2. Two records that agree on \<open>has_h1_title\<close>, \<open>subsection_links.present\<close>,
  \<open>body.has_collapsible_sections\<close>, \<open>faculty_links.count\<close>, \<open>appointment.present\<close> and
  \<open>body.has_subheadings\<close> get the same page type, whatever their other fields are (the
  two may even carry body fragments of different shape), and the page type is always
  one of the six literals.
\<close>

theorem classify_page_type_six_fields:
  assumes "has_h1_title a = has_h1_title b"
    and "sl_present (subsection_links a) = sl_present (subsection_links b)"
    and "has_collapsible_sections (body_content a) = has_collapsible_sections (body_content b)"
    and "fl_count (faculty_links a) = fl_count (faculty_links b)"
    and "ap_present (appointment_section a) = ap_present (appointment_section b)"
    and "has_subheadings (body_content a) = has_subheadings (body_content b)"
  shows "classify_page_type a = classify_page_type b \<and>
         classify_page_type a \<in>
           {py ''parent_overview'', py ''service_complex'', py ''multi_specialty'',
            py ''simple'', py ''structured'', py ''standard''}"
  using assms by (simp add: classify_page_type_def)

theorem classify_page_type_six_fields_witness:
  "url headless_page \<noteq> url headless_page_su \<and>
   page_title headless_page \<noteq> page_title headless_page_su \<and>
   classify_page_type headless_page = classify_page_type headless_page_su \<and>
   classify_page_type headless_page \<in>
     {py ''parent_overview'', py ''service_complex'', py ''multi_specialty'',
      py ''simple'', py ''structured'', py ''standard''}"
proof -
  have d: "url headless_page \<noteq> url headless_page_su \<and>
      page_title headless_page \<noteq> page_title headless_page_su"
    by (simp add: headless_page_def headless_page_su_def py_def)
  have "classify_page_type headless_page = classify_page_type headless_page_su \<and>
      classify_page_type headless_page \<in>
        {py ''parent_overview'', py ''service_complex'', py ''multi_specialty'',
         py ''simple'', py ''structured'', py ''standard''}"
    by (rule classify_page_type_six_fields)
       (simp_all add: headless_page_def headless_page_su_def links_of_count_def no_body_def
          no_appointment_def)
  with d show ?thesis by blast
qed

section \<open>The title extractor\<close>

lemma all_dropWhile: "(\<forall>c\<in>set (dropWhile P s). P c) \<longleftrightarrow> (\<forall>c\<in>set s. P c)"
  by (induction s) auto

lemma strip_with_empty: "strip_with P s = [] \<longleftrightarrow> (\<forall>c\<in>set s. P c)"
proof -
  have "strip_with P s = [] \<longleftrightarrow> dropWhile P (rev (dropWhile P s)) = []"
    by (simp add: strip_with_def rstrip_with_def lstrip_with_def)
  also have "\<dots> \<longleftrightarrow> (\<forall>c\<in>set (dropWhile P s). P c)"
    by (simp add: dropWhile_eq_Nil_conv)
  also have "\<dots> \<longleftrightarrow> (\<forall>c\<in>set s. P c)"
    by (rule all_dropWhile)
  finally show ?thesis .
qed

lemma sub_runs_all:
  "P r \<Longrightarrow> (\<forall>c\<in>set (sub_runs P [r] s). P c) \<longleftrightarrow> (\<forall>c\<in>set s. P c)"
proof (induction P "[r]" s rule: sub_runs.induct)
  case (1 P)
  show ?case by simp
next
  case (2 P c cs)
  show ?case
  proof (cases "P c")
    case True
    have "(\<forall>x\<in>set (dropWhile P cs). P x) \<longleftrightarrow> (\<forall>x\<in>set cs. P x)"
      by (rule all_dropWhile)
    with 2 True show ?thesis by simp
  next
    case False
    then show ?thesis by simp
  qed
qed

lemma clean_text_empty: "clean_text s = [] \<longleftrightarrow> \<not> visible s"
proof -
  let ?a = "replace_char 8203 [] s"
  let ?b = "replace_char 160 [32] ?a"
  have sp: "is_space 32" "is_space 160" by (simp_all add: is_space_def)
  have a: "set ?a = set s - {8203}"
    unfolding replace_char_def by (induction s) auto
  have b: "(\<forall>c\<in>set ?b. is_space c) \<longleftrightarrow> (\<forall>c\<in>set ?a. is_space c)"
    unfolding replace_char_def [of 160] using sp by (induction ?a) auto
  have "clean_text s = [] \<longleftrightarrow> (\<forall>c\<in>set (sub_runs is_space [32] ?b). is_space c)"
    by (simp add: clean_text_def strip_def strip_with_empty)
  also have "\<dots> \<longleftrightarrow> (\<forall>c\<in>set ?b. is_space c)"
    using sp by (simp add: sub_runs_all)
  also have "\<dots> \<longleftrightarrow> (\<forall>c\<in>set s. is_space c \<or> c = 8203)"
    using a b by auto
  also have "\<dots> \<longleftrightarrow> \<not> visible s"
    by (auto simp: visible_def list_ex_iff)
  finally show ?thesis .
qed

text \<open>
  C3, the claim as stated fails: on \<^verbatim>\<open><h1> </h1><h2>Cardiology</h2>\<close> the first
  level-1 heading exists, its text is a single space, and the title is the empty string
  (neither the level-2 heading nor \<open>Untitled\<close> is used).
\<close>

theorem extract_title_blank_h1_empty:
  "find_first (named ''h1'') (blank_h1_page, []) \<noteq> None \<and> extract_title blank_h1_page = []"
  by (simp add: blank_h1_page_def extract_title_def find_first_def named_def py_def
      clean_text_def replace_char_def strip_def strip_with_def lstrip_with_def
      rstrip_with_def is_space_def)

text \<open>
  C3, amended. The title is the cleaned text of the first level-1 heading if there is
  one, else the cleaned text of the first level-2 heading, else \<open>Untitled\<close>. It is
  non-empty exactly when no such heading exists or the text of the heading that is read
  has a character other than whitespace and U+200B.
\<close>

theorem extract_title_cases:
  "extract_title soup =
     (case title_heading soup of
        None \<Rightarrow> py ''Untitled''
      | Some h \<Rightarrow> clean_text (get_text (fst h))) \<and>
   (extract_title soup \<noteq> [] \<longleftrightarrow>
      (\<forall>h. title_heading soup = Some h \<longrightarrow> visible (get_text (fst h))))"
  by (auto simp: extract_title_def title_heading_def clean_text_empty py_def
      split: option.splits)

theorem extract_title_cases_witness:
  "title_heading cardiology_page =
     Some (Tag (py ''h1'') [] [NavigableString (py ''Cardiology'')], [cardiology_page]) \<and>
   extract_title cardiology_page = clean_text (py ''Cardiology'') \<and>
   visible (py ''Cardiology'') \<and>
   extract_title cardiology_page \<noteq> []"
proof -
  have h: "title_heading cardiology_page =
      Some (Tag (py ''h1'') [] [NavigableString (py ''Cardiology'')], [cardiology_page])"
    by (simp add: title_heading_def cardiology_page_def find_first_def named_def py_def)
  have v: "visible (py ''Cardiology'')"
    by (simp add: visible_def py_def is_space_def)
  note t = extract_title_cases [of cardiology_page]
  from t h have e: "extract_title cardiology_page = clean_text (py ''Cardiology'')"
    by simp
  from t h v have "extract_title cardiology_page \<noteq> []"
    by auto
  with h v e show ?thesis by blast
qed

section \<open>Faculty links\<close>

lemma remove_duplicates_distinct:
  "distinct (map (\<lambda>l. (link_url l, link_text l)) unique_links) \<Longrightarrow>
   (\<lambda>l. (link_url l, link_text l)) ` set unique_links \<subseteq> seen \<Longrightarrow>
   distinct (map (\<lambda>l. (link_url l, link_text l)) (remove_duplicates seen unique_links ls))"
proof (induction ls arbitrary: seen unique_links)
  case Nil
  then show ?case by simp
next
  case (Cons l ls)
  show ?case
  proof (cases "(link_url l, link_text l) \<in> seen")
    case True
    with Cons show ?thesis by simp
  next
    case False
    have "distinct (map (\<lambda>l. (link_url l, link_text l)) (unique_links @ [l]))"
      using Cons.prems False by auto
    moreover have "(\<lambda>l. (link_url l, link_text l)) ` set (unique_links @ [l])
        \<subseteq> insert (link_url l, link_text l) seen"
      using Cons.prems by auto
    ultimately have "distinct (map (\<lambda>l. (link_url l, link_text l))
        (remove_duplicates (insert (link_url l, link_text l) seen) (unique_links @ [l]) ls))"
      by (rule Cons.IH)
    with False show ?thesis by simp
  qed
qed

text \<open>
  C7. For every document, no two entries of the links returned by
  \<open>extract_faculty_links\<close> have the same pair of \<open>url\<close> and \<open>text\<close>, and \<open>count\<close> is the
  length of that list.
\<close>

theorem extract_faculty_links_unique:
  "distinct (map (\<lambda>l. (link_url l, link_text l)) (fl_links (extract_faculty_links rt soup))) \<and>
   fl_count (extract_faculty_links rt soup) = int (length (fl_links (extract_faculty_links rt soup)))"
  by (simp add: extract_faculty_links_def Let_def remove_duplicates_distinct)

theorem extract_faculty_links_unique_witness:
  "length (inline_links ascii_rt (h4_links (faculty_page, [])) (find_all a_href (faculty_page, []))) = 2 \<and>
   fl_count (extract_faculty_links ascii_rt faculty_page) = 1 \<and>
   distinct (map (\<lambda>l. (link_url l, link_text l))
     (fl_links (extract_faculty_links ascii_rt faculty_page)))"
proof -
  have "length (inline_links ascii_rt (h4_links (faculty_page, []))
      (find_all a_href (faculty_page, []))) = 2"
    by (simp add: faculty_page_def h4_links_def faculty_entry_def
        extract_specialty_from_url_def get_elem_def rt_defs str_defs tree_defs)
  moreover have "fl_count (extract_faculty_links ascii_rt faculty_page) = 1"
    by (simp add: extract_faculty_links_def faculty_page_def h4_links_def faculty_entry_def
        extract_specialty_from_url_def get_elem_def rt_defs str_defs tree_defs)
  ultimately show ?thesis
    using extract_faculty_links_unique [of ascii_rt faculty_page] by blast
qed

section \<open>Slugs\<close>

lemma slugify_unfold:
  "slugify rt now s max_len =
     rstrip_with (\<lambda>c. c = 45)
       (slice_to max_len
          (if slug_normal rt s = [] then py ''service-'' @ str_of_int now else slug_normal rt s))"
  by (simp add: slugify_def slug_normal_def Let_def)

lemma length_rstrip_with: "length (rstrip_with P s) \<le> length s"
  unfolding rstrip_with_def using length_dropWhile_le [of P "rev s"] by simp

lemma rstrip_take_nonempty:
  assumes "t \<noteq> []" and "\<not> P (hd t)" and "1 \<le> n"
  shows "rstrip_with P (slice_to n t) \<noteq> [] \<and> int (length (rstrip_with P (slice_to n t))) \<le> n"
proof -
  from assms(1) obtain x u where t: "t = x # u" by (cases t) auto
  from assms(3) obtain k where k: "nat n = Suc k" by (cases "nat n") auto
  have sl: "slice_to n t = x # take k u"
    using assms(3) t k by (simp add: slice_to_def)
  have "rstrip_with P (slice_to n t) = x # rev (dropWhile P (rev (take k u)))"
    unfolding sl using assms(2) t by (simp add: rstrip_with_keeps_hd)
  then have ne: "rstrip_with P (slice_to n t) \<noteq> []" by simp
  have "length (rstrip_with P (slice_to n t)) \<le> length (slice_to n t)"
    by (rule length_rstrip_with)
  also have "\<dots> \<le> nat n" unfolding sl k by simp
  finally have "int (length (rstrip_with P (slice_to n t))) \<le> n"
    using assms(3) by linarith
  with ne show ?thesis by simp
qed

text \<open>
  C10. For every input string (the empty one, and those of whitespace or symbols only,
  included) and every positive \<open>max_len\<close> (the default is 90), \<open>slugify\<close> returns a
  non-empty slug of at most \<open>max_len\<close> characters; when the normalization leaves the
  empty string, the slug is made from \<open>service-\<close> followed by the integer timestamp.
\<close>

theorem slugify_nonempty:
  assumes "1 \<le> max_len"
  shows "slugify rt now s max_len \<noteq> [] \<and>
         int (length (slugify rt now s max_len)) \<le> max_len \<and>
         (slug_normal rt s = [] \<longrightarrow>
            slugify rt now s max_len =
              rstrip_with (\<lambda>c. c = 45) (slice_to max_len (py ''service-'' @ str_of_int now)))"
proof (cases "slug_normal rt s = []")
  case True
  have "py ''service-'' @ str_of_int now \<noteq> [] \<and> hd (py ''service-'' @ str_of_int now) \<noteq> 45"
    by (simp add: py_def)
  with assms True show ?thesis
    by (simp add: slugify_unfold rstrip_take_nonempty)
next
  case False
  have "slug_normal rt s = [] \<or> \<not> hd (slug_normal rt s) = 45"
    unfolding slug_normal_def by (rule strip_with_hd)
  with False have "hd (slug_normal rt s) \<noteq> 45" by simp
  with assms False show ?thesis
    by (simp add: slugify_unfold rstrip_take_nonempty)
qed

theorem slugify_nonempty_witness:
  "(1::int) \<le> 90 \<and>
   slugify ascii_rt 1700000000 (py ''Heart & Vascular  Care!'') 90 = py ''heart-vascular-care'' \<and>
   slug_normal ascii_rt (py '' !!! '') = [] \<and>
   slugify ascii_rt 1700000000 (py '' !!! '') 90 = py ''service-1700000000'' \<and>
   slugify ascii_rt 1700000000 (py '' !!! '') 90 \<noteq> [] \<and>
   int (length (slugify ascii_rt 1700000000 (py '' !!! '') 90)) \<le> 90"
proof -
  have h: "(1::int) \<le> 90" by simp
  have a: "slugify ascii_rt 1700000000 (py ''Heart & Vascular  Care!'') 90 = py ''heart-vascular-care''"
    by (simp add: slugify_def slice_to_def rt_defs str_defs)
  have b: "slug_normal ascii_rt (py '' !!! '') = []"
    by (simp add: slug_normal_def rt_defs str_defs)
  have c: "str_of_int 1700000000 = py ''1700000000''"
    by (simp add: str_of_int_def str_of_nat.simps py_def)
  from slugify_nonempty [OF h, where rt = ascii_rt and s = "py '' !!! ''" and now = 1700000000] b
  have d: "slugify ascii_rt 1700000000 (py '' !!! '') 90 \<noteq> [] \<and>
      int (length (slugify ascii_rt 1700000000 (py '' !!! '') 90)) \<le> 90 \<and>
      slugify ascii_rt 1700000000 (py '' !!! '') 90 =
        rstrip_with (\<lambda>c. c = 45) (slice_to 90 (py ''service-'' @ str_of_int 1700000000))"
    by blast
  have e: "rstrip_with (\<lambda>c. c = 45) (slice_to 90 (py ''service-'' @ str_of_int 1700000000))
      = py ''service-1700000000''"
    unfolding c by (simp add: slice_to_def rstrip_with_def py_def)
  from d e have "slugify ascii_rt 1700000000 (py '' !!! '') 90 = py ''service-1700000000''"
    by simp
  with h a b d show ?thesis by blast
qed

section \<open>The upload loop\<close>

text \<open>
  In both files a record without title is counted as failed and the loop goes on with
  the next file, in the state it had, so without any request for the record.
\<close>

lemma upload_loop_skips_untitled:
  "strip (or_empty (sp_page_title data)) = [] \<Longrightarrow>
   upload_loop rt w st ((jp, Some data) # files) =
     upload_loop rt w (st\<lparr> failed_count := failed_count st + 1 \<rparr>) files"
  by simp

text \<open>
  In \<open>akuh_scrape_and_upload.py\<close> the same holds for a record without body text.
\<close>

lemma upload_loop_su_skips_invalid:
  "strip (or_empty (sp_page_title data)) = [] \<or> strip (or_empty (sp_main_paragraphs data)) = [] \<Longrightarrow>
   upload_loop_su rt w st ((jp, Some data) # files) =
     upload_loop_su rt w (st\<lparr> failed_count := failed_count st + 1 \<rparr>) files"
  by (auto simp: Let_def)

lemma run_upload_su_bodyless:
  "run_upload_su ascii_rt accepting [bodyless_file, complete_file] =
     \<lparr> uploaded_count = 1, failed_count = 1,
       calls = [CreateStory (py ''Oncology'') (py ''oncology'') (py ''Cancer care at the hospital.'')] \<rparr>"
  by (simp add: run_upload_su_def bodyless_file_def complete_file_def accepting_def
      or_empty_def publish_record_def create_storyblok_story_def slugify_def slice_to_def
      rt_defs str_defs)

text \<open>
  C4 fails in \<open>akuh_uploader.py\<close>: for a stored page with a title and an empty
  \<open>main_paragraphs\<close>, \<open>run_upload\<close> only warns, then sends the request that creates
  the story; the record is counted as uploaded, not as failed. (The \<open>run_upload\<close> of
  \<open>akuh_scrape_and_upload.py\<close> skips the same record, see \<open>run_upload_su_bodyless\<close>.)
\<close>

theorem run_upload_bodyless_is_published:
  "run_upload ascii_rt accepting [bodyless_file, complete_file] =
     \<lparr> uploaded_count = 2, failed_count = 0,
       calls = [CreateStory (py ''Cardiology'') (py ''cardiology'') [],
                CreateStory (py ''Oncology'') (py ''oncology'') (py ''Cancer care at the hospital.'')] \<rparr>"
  by (simp add: run_upload_def bodyless_file_def complete_file_def accepting_def
      or_empty_def publish_record_def create_storyblok_story_def slugify_def slice_to_def
      rt_defs str_defs)

section \<open>The appointment block\<close>

lemma scan_paragraphs_first:
  "\<forall>q\<in>set before. \<not> requests_appointment rt q \<Longrightarrow> requests_appointment rt p \<Longrightarrow>
   scan_paragraphs rt (before @ p # after) = appointment_at rt p (clean_text (get_text (fst p)))"
  by (induction before) auto

lemma scan_paragraphs_none:
  "\<forall>q\<in>set ps. \<not> requests_appointment rt q \<Longrightarrow> scan_paragraphs rt ps = no_appointment"
  by (induction ps) auto

lemma phone_here_Nil: "\<not> phone_here rt []"
  by (simp add: phone_here_def)

lemma search_phone_None: "search_phone rt s = None \<Longrightarrow> \<not> phone_here rt (drop i s)"
proof (induction s arbitrary: i)
  case Nil
  show ?case by (simp add: phone_here_Nil)
next
  case (Cons c cs)
  then show ?case by (cases i) (auto split: if_splits)
qed

lemma search_phone_Some:
  "search_phone rt s = Some m \<Longrightarrow> \<exists>i. leftmost_phone rt s i \<and> m = take 14 (drop i s)"
proof (induction s)
  case Nil
  then show ?case by simp
next
  case (Cons c cs)
  show ?case
  proof (cases "phone_here rt (c # cs)")
    case True
    with Cons.prems have "leftmost_phone rt (c # cs) 0 \<and> m = take 14 (drop 0 (c # cs))"
      by (auto simp: leftmost_phone_def)
    then show ?thesis by blast
  next
    case False
    with Cons obtain i where i: "leftmost_phone rt cs i" "m = take 14 (drop i cs)"
      by auto
    have "\<not> phone_here rt (drop j (c # cs))" if "j < Suc i" for j
    proof (cases j)
      case 0
      with False show ?thesis by simp
    next
      case (Suc k)
      with that i(1) show ?thesis by (simp add: leftmost_phone_def list_all_iff)
    qed
    with i have "leftmost_phone rt (c # cs) (Suc i) \<and> m = take 14 (drop (Suc i) (c # cs))"
      by (simp add: leftmost_phone_def list_all_iff)
    then show ?thesis by blast
  qed
qed

lemma phone_number_leftmost:
  "(phone_number (ap_components (appointment_at rt p text)) = [] \<and>
      (\<forall>i. \<not> phone_here rt (drop i text))) \<or>
   (\<exists>i. leftmost_phone rt text i \<and>
      phone_number (ap_components (appointment_at rt p text)) = take 14 (drop i text))"
proof (cases "search_phone rt text")
  case None
  then show ?thesis by (simp add: appointment_at_def search_phone_None)
next
  case (Some m)
  from search_phone_Some [OF Some] show ?thesis
    by (auto simp: appointment_at_def Some)
qed

text \<open>
  C8. Let \<open>p\<close> be the first paragraph of the document, in document order, whose cleaned
  text contains \<open>Request an Appointment\<close> (as written, or in its lowercased form). Then
  the result of \<open>extract_appointment_section\<close> is what the inspection of \<open>p\<close> alone
  gives: \<open>present\<close> is true; \<open>phone_number\<close> is the leftmost substring of the cleaned
  text of \<open>p\<close> made of an opening parenthesis, three digits, a closing parenthesis and
  nine digits, or the empty string when there is none; the click link is the first
  \<open>a\<close> with \<open>href\<close> inside \<open>p\<close>; and whatever paragraphs follow \<open>p\<close>, the result is the
  same.
\<close>

theorem extract_appointment_section_first_match:
  assumes "find_all (named ''p'') (soup, []) = before @ p # after"
    and "\<forall>q\<in>set before. \<not> requests_appointment rt q"
    and "requests_appointment rt p"
  shows "extract_appointment_section rt soup =
           appointment_at rt p (clean_text (get_text (fst p))) \<and>
         ap_present (extract_appointment_section rt soup) \<and>
         ((phone_number (ap_components (extract_appointment_section rt soup)) = [] \<and>
             (\<forall>i. \<not> phone_here rt (drop i (clean_text (get_text (fst p)))))) \<or>
          (\<exists>i. leftmost_phone rt (clean_text (get_text (fst p))) i \<and>
             phone_number (ap_components (extract_appointment_section rt soup)) =
               take 14 (drop i (clean_text (get_text (fst p)))))) \<and>
         click_here (ap_components (extract_appointment_section rt soup)) =
           (case find_first a_href p of
              None \<Rightarrow> \<lparr> cl_present = False, cl_text = [], cl_url = [] \<rparr>
            | Some a \<Rightarrow> \<lparr> cl_present = True, cl_text = clean_text (get_text (fst a)),
                          cl_url = get_or_empty (fst a) ''href'' \<rparr>) \<and>
         (\<forall>others. scan_paragraphs rt (before @ p # others) = extract_appointment_section rt soup)"
proof -
  let ?r = "appointment_at rt p (clean_text (get_text (fst p)))"
  have scan: "scan_paragraphs rt (before @ p # others) = ?r" for others
    using assms(2,3) by (rule scan_paragraphs_first)
  have e: "extract_appointment_section rt soup = ?r"
    by (simp add: extract_appointment_section_def assms(1) scan)
  have "ap_present ?r" by (simp add: appointment_at_def)
  moreover have "click_here (ap_components ?r) =
      (case find_first a_href p of
         None \<Rightarrow> \<lparr> cl_present = False, cl_text = [], cl_url = [] \<rparr>
       | Some a \<Rightarrow> \<lparr> cl_present = True, cl_text = clean_text (get_text (fst a)),
                     cl_url = get_or_empty (fst a) ''href'' \<rparr>)"
    by (simp add: appointment_at_def)
  moreover note phone_number_leftmost [of rt p "clean_text (get_text (fst p))"]
  ultimately show ?thesis unfolding e using scan by simp
qed

theorem extract_appointment_section_first_match_witness:
  "find_all (named ''p'') (appointment_page, []) =
     [(intro_p, [appointment_page])] @ (request_p, [appointment_page]) #
     [(later_p, [appointment_page])] \<and>
   \<not> requests_appointment ascii_rt (intro_p, [appointment_page]) \<and>
   requests_appointment ascii_rt (request_p, [appointment_page]) \<and>
   requests_appointment ascii_rt (later_p, [appointment_page]) \<and>
   ap_present (extract_appointment_section ascii_rt appointment_page) \<and>
   phone_number (ap_components (extract_appointment_section ascii_rt appointment_page)) =
     py ''(021)111911911'' \<and>
   click_here (ap_components (extract_appointment_section ascii_rt appointment_page)) =
     \<lparr> cl_present = True, cl_text = py ''Click here'', cl_url = py ''/appointment'' \<rparr>"
proof -
  have f: "find_all (named ''p'') (appointment_page, []) =
      [(intro_p, [appointment_page])] @ (request_p, [appointment_page]) #
      [(later_p, [appointment_page])]"
    by (simp add: appointment_page_def intro_p_def request_p_def later_p_def tree_defs py_def)
  have n: "\<forall>q\<in>set [(intro_p, [appointment_page])]. \<not> requests_appointment ascii_rt q"
    by (simp add: requests_appointment_def intro_p_def rt_defs str_defs)
  have y: "requests_appointment ascii_rt (request_p, [appointment_page])"
    by (simp add: requests_appointment_def request_p_def rt_defs str_defs)
  have l: "requests_appointment ascii_rt (later_p, [appointment_page])"
    by (simp add: requests_appointment_def later_p_def rt_defs str_defs)
  note t = extract_appointment_section_first_match [OF f n y]
  from t have e: "extract_appointment_section ascii_rt appointment_page =
      appointment_at ascii_rt (request_p, [appointment_page]) (clean_text (get_text request_p))"
    by simp
  from t have a: "ap_present (extract_appointment_section ascii_rt appointment_page)"
    by blast
  have "phone_number (ap_components (appointment_at ascii_rt (request_p, [appointment_page])
      (clean_text (get_text request_p)))) = py ''(021)111911911''"
    by (simp add: appointment_at_def request_p_def phone_here_def rt_defs str_defs)
  with e have b: "phone_number (ap_components (extract_appointment_section ascii_rt
      appointment_page)) = py ''(021)111911911''"
    by simp
  have "click_here (ap_components (appointment_at ascii_rt (request_p, [appointment_page])
      (clean_text (get_text request_p)))) =
      \<lparr> cl_present = True, cl_text = py ''Click here'', cl_url = py ''/appointment'' \<rparr>"
    by (simp add: appointment_at_def request_p_def tree_defs rt_defs str_defs)
  with e have c: "click_here (ap_components (extract_appointment_section ascii_rt
      appointment_page)) =
      \<lparr> cl_present = True, cl_text = py ''Click here'', cl_url = py ''/appointment'' \<rparr>"
    by simp
  from f n y l a b c show ?thesis by simp
qed

section \<open>External links\<close>

text \<open>
  C9, the claim as stated fails: the link to
  \<^verbatim>\<open>https://www.linkedin.com/school/aku.edu\<close> has an absolute URL whose host,
  \<open>www.linkedin.com\<close>, is not the organization's domain, so the claim classifies it as
  \<open>external\<close>; the extractor emits it as \<open>internal\<close>, because the text \<open>aku.edu\<close>
  occurs in the address.
\<close>

theorem extract_external_links_linkedin_internal:
  "map (\<lambda>l. (link_text l, link_url l, link_type l)) (extract_external_links ascii_rt partner_page) =
     [(py ''LinkedIn'', py ''https://www.linkedin.com/school/aku.edu'', py ''internal''),
      (py ''WHO report'', py ''https://www.who.int/report.pdf'', py ''external'')] \<and>
   spec_absolute (py ''https://www.linkedin.com/school/aku.edu'') \<and>
   spec_host (py ''https://www.linkedin.com/school/aku.edu'') = py ''www.linkedin.com'' \<and>
   \<not> spec_own_host (py ''www.linkedin.com'') \<and>
   spec_link_type (py ''https://www.linkedin.com/school/aku.edu'') = py ''external''"
  by (simp add: extract_external_links_def partner_page_def footer_div_def linkedin_a_def
      who_a_def skipped_link_def external_entry_def link_type_of_def parent_class_def
      str_of_class_def spec_absolute_def spec_host_def spec_own_host_def spec_link_type_def
      tree_defs rt_defs str_defs)

lemma link_type_of_cases:
  "(link_type_of href = py ''external'' \<longleftrightarrow>
      startswith href (py ''http'') \<and> \<not> py_in (py ''aku.edu'') href) \<and>
   (link_type_of href = py ''document'' \<longleftrightarrow>
      \<not> (startswith href (py ''http'') \<and> \<not> py_in (py ''aku.edu'') href) \<and>
      list_ex (\<lambda>ext. endswith href (py ext)) [''.pdf'', ''.doc'', ''.docx'', ''.xlsx'']) \<and>
   (link_type_of href = py ''internal'' \<longleftrightarrow>
      \<not> (startswith href (py ''http'') \<and> \<not> py_in (py ''aku.edu'') href) \<and>
      \<not> list_ex (\<lambda>ext. endswith href (py ext)) [''.pdf'', ''.doc'', ''.docx'', ''.xlsx''])"
proof -
  have d: "py ''external'' \<noteq> py ''document''" "py ''external'' \<noteq> py ''internal''"
    "py ''document'' \<noteq> py ''internal''"
    by (simp_all add: py_def)
  show ?thesis unfolding link_type_of_def using d by auto
qed

text \<open>
  C9, amended. Every \<open>a\<close> tag of the document that has an \<open>href\<close> attribute, a non-empty
  cleaned text and a non-empty \<open>href\<close>, is not a doctor-search link (\<open>/findadoctor.aspx\<close>
  does not occur in the \<open>href\<close>) and has no ancestor whose printed class attribute
  contains \<open>breadcrumb\<close>, is emitted with its cleaned text and its \<open>href\<close>, classified
  \<open>external\<close> exactly when the \<open>href\<close> starts with \<open>http\<close> and does not contain
  \<open>aku.edu\<close> anywhere; otherwise \<open>document\<close> exactly when the \<open>href\<close> ends in \<open>.pdf\<close>,
  \<open>.doc\<close>, \<open>.docx\<close> or \<open>.xlsx\<close>; otherwise \<open>internal\<close>.
\<close>

theorem extract_external_links_classified:
  assumes "a \<in> set (find_all a_href (soup, []))"
    and "clean_text (get_text (fst a)) \<noteq> []"
    and "get_or_empty (fst a) ''href'' \<noteq> []"
    and "\<not> py_in (py ''/findadoctor.aspx'') (get_or_empty (fst a) ''href'')"
    and "\<forall>n\<in>set (snd a). \<not> py_in (py ''breadcrumb'') (str_of_class rt n)"
  shows "external_entry a \<in> set (extract_external_links rt soup) \<and>
         link_text (external_entry a) = clean_text (get_text (fst a)) \<and>
         link_url (external_entry a) = get_or_empty (fst a) ''href'' \<and>
         (link_type (external_entry a) = py ''external'' \<longleftrightarrow>
            startswith (get_or_empty (fst a) ''href'') (py ''http'') \<and>
            \<not> py_in (py ''aku.edu'') (get_or_empty (fst a) ''href'')) \<and>
         (link_type (external_entry a) = py ''document'' \<longleftrightarrow>
            \<not> (startswith (get_or_empty (fst a) ''href'') (py ''http'') \<and>
               \<not> py_in (py ''aku.edu'') (get_or_empty (fst a) ''href'')) \<and>
            list_ex (\<lambda>ext. endswith (get_or_empty (fst a) ''href'') (py ext))
              [''.pdf'', ''.doc'', ''.docx'', ''.xlsx'']) \<and>
         (link_type (external_entry a) = py ''internal'' \<longleftrightarrow>
            \<not> (startswith (get_or_empty (fst a) ''href'') (py ''http'') \<and>
               \<not> py_in (py ''aku.edu'') (get_or_empty (fst a) ''href'')) \<and>
            \<not> list_ex (\<lambda>ext. endswith (get_or_empty (fst a) ''href'') (py ext))
              [''.pdf'', ''.doc'', ''.docx'', ''.xlsx''])"
proof -
  have "\<not> py_in (py ''breadcrumb'') (parent_class rt a)"
    using assms(5) by (cases "snd a") (auto simp: parent_class_def py_def)
  with assms(2,3,4) have "\<not> skipped_link rt a" by (simp add: skipped_link_def)
  with assms(1) have "external_entry a \<in> set (extract_external_links rt soup)"
    by (simp add: extract_external_links_def)
  moreover have "link_type (external_entry a) = link_type_of (get_or_empty (fst a) ''href'')"
    "link_text (external_entry a) = clean_text (get_text (fst a))"
    "link_url (external_entry a) = get_or_empty (fst a) ''href''"
    by (simp_all add: external_entry_def)
  ultimately show ?thesis
    using link_type_of_cases [of "get_or_empty (fst a) ''href''"] by simp
qed

theorem extract_external_links_classified_witness:
  "(who_a, [footer_div, partner_page]) \<in> set (find_all a_href (partner_page, [])) \<and>
   clean_text (get_text who_a) = py ''WHO report'' \<and>
   get_or_empty who_a ''href'' = py ''https://www.who.int/report.pdf'' \<and>
   str_of_class ascii_rt footer_div = py ''['' @ [39] @ py ''footer'' @ [39] @ py '']'' \<and>
   str_of_class ascii_rt partner_page = [] \<and>
   external_entry (who_a, [footer_div, partner_page]) \<in>
     set (extract_external_links ascii_rt partner_page) \<and>
   link_type (external_entry (who_a, [footer_div, partner_page])) = py ''external''"
proof -
  have m: "(who_a, [footer_div, partner_page]) \<in> set (find_all a_href (partner_page, []))"
    by (simp add: partner_page_def footer_div_def linkedin_a_def who_a_def tree_defs py_def)
  have t: "clean_text (get_text who_a) = py ''WHO report''"
    by (simp add: who_a_def str_defs)
  have h: "get_or_empty who_a ''href'' = py ''https://www.who.int/report.pdf''"
    by (simp add: who_a_def get_or_empty_def py_def)
  have c1: "str_of_class ascii_rt footer_div = py ''['' @ [39] @ py ''footer'' @ [39] @ py '']''"
    by (simp add: str_of_class_def footer_div_def get_class_def split_def rt_defs py_def
        is_space_def)
  have c2: "str_of_class ascii_rt partner_page = []"
    by (simp add: str_of_class_def partner_page_def get_class_def py_def)
  have ne: "clean_text (get_text (fst (who_a, [footer_div, partner_page]))) \<noteq> []"
    "get_or_empty (fst (who_a, [footer_div, partner_page])) ''href'' \<noteq> []"
    using t h by (simp_all add: py_def)
  have nd: "\<not> py_in (py ''/findadoctor.aspx'')
      (get_or_empty (fst (who_a, [footer_div, partner_page])) ''href'')"
    using h by (simp add: str_defs)
  have nb: "\<forall>n\<in>set (snd (who_a, [footer_div, partner_page])).
      \<not> py_in (py ''breadcrumb'') (str_of_class ascii_rt n)"
    using c1 c2 by (simp add: str_defs)
  note r = extract_external_links_classified [OF m ne nd nb]
  have x: "startswith (get_or_empty who_a ''href'') (py ''http'') \<and>
      \<not> py_in (py ''aku.edu'') (get_or_empty who_a ''href'')"
    unfolding h by (simp add: str_defs)
  from r x have "external_entry (who_a, [footer_div, partner_page]) \<in>
      set (extract_external_links ascii_rt partner_page) \<and>
      link_type (external_entry (who_a, [footer_div, partner_page])) = py ''external''"
    by simp
  with m t h c1 c2 show ?thesis by blast
qed

section \<open>The content region and the body fragment\<close>

lemma find_Some_split:
  "List.find P xs = Some x \<Longrightarrow> \<exists>pre post. xs = pre @ x # post \<and> P x \<and> (\<forall>d\<in>set pre. \<not> P d)"
proof (induction xs)
  case Nil
  then show ?case by simp
next
  case (Cons y ys)
  show ?case
  proof (cases "P y")
    case True
    with Cons.prems have "y # ys = [] @ x # ys \<and> P x \<and> (\<forall>d\<in>set []. \<not> P d)" by simp
    then show ?thesis by blast
  next
    case False
    with Cons obtain pre post where "ys = pre @ x # post" "P x" "\<forall>d\<in>set pre. \<not> P d"
      by auto
    with False have "y # ys = (y # pre) @ x # post \<and> P x \<and> (\<forall>d\<in>set (y # pre). \<not> P d)"
      by simp
    then show ?thesis by blast
  qed
qed

lemma find_Some_mem: "List.find P xs = Some x \<Longrightarrow> x \<in> set xs"
  by (auto dest: find_Some_split)

lemma first_selected_Some:
  "first_selected soup sels = Some e \<Longrightarrow>
   \<exists>i<length sels. select_one soup (sels ! i) = Some e \<and>
     (\<forall>j<i. select_one soup (sels ! j) = None)"
proof (induction sels)
  case Nil
  then show ?case by simp
next
  case (Cons sel sels)
  show ?case
  proof (cases "select_one soup sel")
    case (Some e')
    with Cons.prems have "select_one soup ((sel # sels) ! 0) = Some e" by simp
    then show ?thesis by auto
  next
    case None
    with Cons obtain i where i: "i < length sels" "select_one soup (sels ! i) = Some e"
      "\<forall>j<i. select_one soup (sels ! j) = None"
      by auto
    have "select_one soup ((sel # sels) ! j) = None" if "j < Suc i" for j
      using that None i(3) by (cases j) auto
    with i(1,2) have "Suc i < length (sel # sels) \<and>
        select_one soup ((sel # sels) ! Suc i) = Some e \<and>
        (\<forall>j<Suc i. select_one soup ((sel # sels) ! j) = None)"
      by simp
    then show ?thesis by blast
  qed
qed

lemma first_selected_mem:
  "first_selected soup sels = Some e \<Longrightarrow> e \<in> set (descendants soup)"
  by (auto dest!: first_selected_Some find_Some_mem simp: select_one_def find_first_def)

lemma class_container_find: "class_container rt soup = List.find holds_text (class_divs rt soup)"
proof -
  have "holds_text = (\<lambda>d. find_first (named ''p'') d \<noteq> None \<or>
      find_first (named ''h1'') d \<noteq> None \<or> find_first (named ''h2'') d \<noteq> None)"
    by (rule ext) (simp add: holds_text_def)
  then show ?thesis by (simp add: class_container_def class_divs_def)
qed

lemma class_container_mem:
  "class_container rt soup = Some e \<Longrightarrow> e \<in> set (descendants soup)"
  unfolding class_container_find
  by (auto dest!: find_Some_mem simp: class_divs_def find_all_def)

lemma content_div_mem: "content_div rt soup \<in> insert soup (set (descendants soup))"
  by (auto simp: content_div_def find_first_def split: option.splits
      dest: first_selected_mem class_container_mem find_Some_mem)

lemma find_first_None: "find_all P e = [] \<Longrightarrow> find_first P e = None"
  by (simp add: find_all_def find_first_def find_None_iff filter_empty_conv)

lemma no_paragraphs: "find_all (named ''p'') cd = [] \<Longrightarrow> paragraphs cd = []"
  by (simp add: paragraphs_def)

lemma no_subheadings:
  "list_all (\<lambda>tag. find_all (named tag) cd = []) [''h2'', ''h3'', ''h4'', ''h5'', ''h6''] \<Longrightarrow>
   subheadings cd = []"
  by (simp add: subheadings_def find_first_None)

lemma no_collapsible: "find_all (named ''h4'') cd = [] \<Longrightarrow> \<not> has_collapsible rt cd"
  by (simp add: has_collapsible_def find_all_def find_first_def find_None_iff filter_empty_conv)

lemma no_appointment_mention:
  "find_all (named ''strong'') cd = [] \<Longrightarrow>
   \<not> strong_tier cd \<and> \<not> paragraph_tier [] \<and> \<not> text_tier (join [10, 10] [])"
  by (simp add: strong_tier_def paragraph_tier_def text_tier_def py_def)

lemma region_by_selector:
  "first_selected soup content_selectors = Some e \<Longrightarrow>
   content_div rt soup = e \<and>
   (\<exists>i<length content_selectors. select_one soup (content_selectors ! i) = Some e \<and>
      (\<forall>j<i. select_one soup (content_selectors ! j) = None))"
  by (simp add: content_div_def first_selected_Some)

lemma region_by_class:
  "first_selected soup content_selectors = None \<Longrightarrow> class_container rt soup = Some e \<Longrightarrow>
   content_div rt soup = e \<and>
   (\<exists>pre post. class_divs rt soup = pre @ e # post \<and> holds_text e \<and>
      (\<forall>d\<in>set pre. \<not> holds_text d))"
proof -
  assume n: "first_selected soup content_selectors = None"
    and c: "class_container rt soup = Some e"
  from c have "List.find holds_text (class_divs rt soup) = Some e"
    by (simp add: class_container_find)
  then have "\<exists>pre post. class_divs rt soup = pre @ e # post \<and> holds_text e \<and>
      (\<forall>d\<in>set pre. \<not> holds_text d)"
    by (rule find_Some_split)
  moreover from n c have "content_div rt soup = e" by (simp add: content_div_def)
  ultimately show ?thesis by blast
qed

lemma region_by_body:
  "first_selected soup content_selectors = None \<Longrightarrow> class_container rt soup = None \<Longrightarrow>
   content_div rt soup = (case find_first (named ''body'') soup of Some b \<Rightarrow> b | None \<Rightarrow> soup)"
  by (simp add: content_div_def)

text \<open>
  C5, the claim as stated fails in its second choice: on the page
  \<^verbatim>\<open><div class="page-content"><h3>Our services</h3></div>\<close>
  \<^verbatim>\<open><div class="main-body"><p>The clinic offers outpatient care.</p></div>\<close>
  the first container found by its class holds a heading, of level 3, and would be the
  region; the extractor passes it by, as it looks for \<open>p\<close>, \<open>h1\<close> and \<open>h2\<close> only, and
  takes the second container. The body fragment is that of the second container: the
  paragraph, and no subheading.
\<close>

theorem content_div_skips_h3_container:
  "spec_content_region ascii_rt (services_page, []) = (heading_div, [services_body, services_page]) \<and>
   content_div ascii_rt (services_page, []) = (text_div, [services_body, services_page]) \<and>
   heading_div \<noteq> text_div \<and>
   main_paragraphs (extract_body_content ascii_rt services_page) =
     py ''The clinic offers outpatient care.'' \<and>
   \<not> has_subheadings (extract_body_content ascii_rt services_page)"
proof -
  have a: "spec_content_region ascii_rt (services_page, []) =
      (heading_div, [services_body, services_page])"
    by (simp add: spec_content_region_def content_selectors_def select_one_def
        spec_class_container_def match_class_def content_class_def services_page_def
        services_body_def heading_div_def text_div_def tree_defs rt_defs str_defs)
  have b: "content_div ascii_rt (services_page, []) =
      (text_div, [services_body, services_page])"
    by (simp add: content_div_def content_selectors_def select_one_def class_container_def
        match_class_def content_class_def services_page_def services_body_def
        heading_div_def text_div_def tree_defs rt_defs str_defs)
  have c: "heading_div \<noteq> text_div"
    by (simp add: heading_div_def text_div_def py_def)
  have d: "main_paragraphs (extract_body_content ascii_rt services_page) =
      py ''The clinic offers outpatient care.''"
    unfolding extract_body_content_def b Let_def
    by (simp add: paragraphs_def EXCLUDED_SECTIONS_def text_div_def tree_defs str_defs)
  have e: "\<not> has_subheadings (extract_body_content ascii_rt services_page)"
    unfolding extract_body_content_def b Let_def
    by (simp add: subheadings_def text_div_def tree_defs py_def)
  from a b c d e show ?thesis by blast
qed

lemma body_fallbacks:
  "(find_all (named ''p'') (content_div rt (soup, [])) = [] \<longrightarrow>
      main_paragraphs (extract_body_content rt soup) = [] \<and>
      word_count (extract_body_content rt soup) = 0) \<and>
   (list_all (\<lambda>tag. find_all (named tag) (content_div rt (soup, [])) = [])
      [''h2'', ''h3'', ''h4'', ''h5'', ''h6''] \<longrightarrow>
      \<not> has_subheadings (extract_body_content rt soup) \<and>
      subheading_tags (extract_body_content rt soup) = []) \<and>
   (find_all (named ''ul'') (content_div rt (soup, [])) = [] \<and>
    find_all (named ''ol'') (content_div rt (soup, [])) = [] \<longrightarrow>
      \<not> has_bullet_lists (extract_body_content rt soup)) \<and>
   (find_all (named ''h4'') (content_div rt (soup, [])) = [] \<longrightarrow>
      \<not> has_collapsible_sections (extract_body_content rt soup))"
  by (simp add: extract_body_content_def Let_def no_paragraphs no_subheadings no_collapsible
      find_first_None split_def)

lemma body_su_fallbacks:
  "(find_all (named ''p'') (content_div rt (soup, [])) = [] \<longrightarrow>
      main_paragraphs (extract_body_content_su rt soup) = [] \<and>
      word_count (extract_body_content_su rt soup) = 0) \<and>
   (list_all (\<lambda>tag. find_all (named tag) (content_div rt (soup, [])) = [])
      [''h2'', ''h3'', ''h4'', ''h5'', ''h6''] \<longrightarrow>
      \<not> has_subheadings (extract_body_content_su rt soup) \<and>
      subheading_tags (extract_body_content_su rt soup) = []) \<and>
   (find_all (named ''ul'') (content_div rt (soup, [])) = [] \<and>
    find_all (named ''ol'') (content_div rt (soup, [])) = [] \<longrightarrow>
      \<not> has_bullet_lists (extract_body_content_su rt soup)) \<and>
   (find_all (named ''h4'') (content_div rt (soup, [])) = [] \<longrightarrow>
      \<not> has_collapsible_sections (extract_body_content_su rt soup)) \<and>
   (find_all (named ''strong'') (content_div rt (soup, [])) = [] \<and>
    find_all (named ''p'') (content_div rt (soup, [])) = [] \<longrightarrow>
      \<not> has_appointment_section (extract_body_content_su rt soup))"
  using no_appointment_mention [of "content_div rt (soup, [])"]
  by (simp add: extract_body_content_su_def Let_def no_paragraphs no_subheadings no_collapsible
      find_first_None split_def)

text \<open>
  C5, amended. For every document tree the content region is a node of the document (a
  tag of it, or the root), chosen by this precedence: the first match of the first
  selector that has one; else the first container found by its class that holds a
  paragraph or a heading of level 1 or 2; else the document body; else the root. Both
  versions of \<open>extract_body_content\<close> return a fragment for every tree, and each field
  has its fallback value when the region lacks the elements it is read from: the empty
  text and zero words without paragraphs, no subheadings without \<open>h2\<close> to \<open>h6\<close>, no
  bullet lists without \<open>ul\<close> and \<open>ol\<close>, no collapsible sections without \<open>h4\<close>, and no
  appointment mention without \<open>strong\<close> and paragraphs.
\<close>

theorem extract_body_content_region_and_fallbacks:
  "content_div rt (soup, []) \<in> insert (soup, []) (set (descendants (soup, []))) \<and>
   (\<forall>e. first_selected (soup, []) content_selectors = Some e \<longrightarrow>
      content_div rt (soup, []) = e \<and>
      (\<exists>i<length content_selectors. select_one (soup, []) (content_selectors ! i) = Some e \<and>
         (\<forall>j<i. select_one (soup, []) (content_selectors ! j) = None))) \<and>
   (\<forall>e. first_selected (soup, []) content_selectors = None \<and>
        class_container rt (soup, []) = Some e \<longrightarrow>
      content_div rt (soup, []) = e \<and>
      (\<exists>pre post. class_divs rt (soup, []) = pre @ e # post \<and> holds_text e \<and>
         (\<forall>d\<in>set pre. \<not> holds_text d))) \<and>
   (first_selected (soup, []) content_selectors = None \<and> class_container rt (soup, []) = None \<longrightarrow>
      content_div rt (soup, []) =
        (case find_first (named ''body'') (soup, []) of Some b \<Rightarrow> b | None \<Rightarrow> (soup, []))) \<and>
   (find_all (named ''p'') (content_div rt (soup, [])) = [] \<longrightarrow>
      main_paragraphs (extract_body_content rt soup) = [] \<and>
      word_count (extract_body_content rt soup) = 0 \<and>
      main_paragraphs (extract_body_content_su rt soup) = [] \<and>
      word_count (extract_body_content_su rt soup) = 0) \<and>
   (list_all (\<lambda>tag. find_all (named tag) (content_div rt (soup, [])) = [])
      [''h2'', ''h3'', ''h4'', ''h5'', ''h6''] \<longrightarrow>
      \<not> has_subheadings (extract_body_content rt soup) \<and>
      subheading_tags (extract_body_content rt soup) = [] \<and>
      \<not> has_subheadings (extract_body_content_su rt soup) \<and>
      subheading_tags (extract_body_content_su rt soup) = []) \<and>
   (find_all (named ''ul'') (content_div rt (soup, [])) = [] \<and>
    find_all (named ''ol'') (content_div rt (soup, [])) = [] \<longrightarrow>
      \<not> has_bullet_lists (extract_body_content rt soup) \<and>
      \<not> has_bullet_lists (extract_body_content_su rt soup)) \<and>
   (find_all (named ''h4'') (content_div rt (soup, [])) = [] \<longrightarrow>
      \<not> has_collapsible_sections (extract_body_content rt soup) \<and>
      \<not> has_collapsible_sections (extract_body_content_su rt soup)) \<and>
   (find_all (named ''strong'') (content_div rt (soup, [])) = [] \<and>
    find_all (named ''p'') (content_div rt (soup, [])) = [] \<longrightarrow>
      \<not> has_appointment_section (extract_body_content_su rt soup))"
proof -
  note a = content_div_mem [of rt "(soup, [])"]
  have b: "\<forall>e. first_selected (soup, []) content_selectors = Some e \<longrightarrow>
      content_div rt (soup, []) = e \<and>
      (\<exists>i<length content_selectors. select_one (soup, []) (content_selectors ! i) = Some e \<and>
         (\<forall>j<i. select_one (soup, []) (content_selectors ! j) = None))"
    using region_by_selector [of "(soup, [])" _ rt] by blast
  have c: "\<forall>e. first_selected (soup, []) content_selectors = None \<and>
        class_container rt (soup, []) = Some e \<longrightarrow>
      content_div rt (soup, []) = e \<and>
      (\<exists>pre post. class_divs rt (soup, []) = pre @ e # post \<and> holds_text e \<and>
         (\<forall>d\<in>set pre. \<not> holds_text d))"
    using region_by_class [of "(soup, [])" rt] by blast
  have d: "first_selected (soup, []) content_selectors = None \<and>
      class_container rt (soup, []) = None \<longrightarrow>
      content_div rt (soup, []) =
        (case find_first (named ''body'') (soup, []) of Some b \<Rightarrow> b | None \<Rightarrow> (soup, []))"
    using region_by_body [of "(soup, [])" rt] by blast
  note e = body_fallbacks [of rt soup]
  note f = body_su_fallbacks [of rt soup]
  from a b c d e f show ?thesis by blast
qed

theorem extract_body_content_region_and_fallbacks_witness:
  "first_selected (article_page, []) content_selectors =
     Some (article_tag, [article_body, article_page]) \<and>
   content_div ascii_rt (article_page, []) = (article_tag, [article_body, article_page]) \<and>
   first_selected (services_page, []) content_selectors = None \<and>
   class_container ascii_rt (services_page, []) = Some (text_div, [services_body, services_page]) \<and>
   content_div ascii_rt (services_page, []) = (text_div, [services_body, services_page]) \<and>
   first_selected (plain_page, []) content_selectors = None \<and>
   class_container ascii_rt (plain_page, []) = None \<and>
   content_div ascii_rt (plain_page, []) = (plain_body, [plain_page]) \<and>
   content_div ascii_rt (cardiology_page, []) = (cardiology_page, []) \<and>
   find_all (named ''p'') (cardiology_page, []) = [] \<and>
   main_paragraphs (extract_body_content ascii_rt cardiology_page) = [] \<and>
   word_count (extract_body_content ascii_rt cardiology_page) = 0 \<and>
   \<not> has_subheadings (extract_body_content ascii_rt cardiology_page) \<and>
   \<not> has_bullet_lists (extract_body_content ascii_rt cardiology_page) \<and>
   \<not> has_collapsible_sections (extract_body_content ascii_rt cardiology_page) \<and>
   \<not> has_appointment_section (extract_body_content_su ascii_rt cardiology_page)"
proof -
  have a1: "first_selected (article_page, []) content_selectors =
      Some (article_tag, [article_body, article_page])"
    by (simp add: content_selectors_def select_one_def article_page_def article_body_def
        article_tag_def main_tag_def tree_defs py_def)
  from extract_body_content_region_and_fallbacks [of ascii_rt article_page] a1
  have a2: "content_div ascii_rt (article_page, []) = (article_tag, [article_body, article_page])"
    by blast
  have s1: "first_selected (services_page, []) content_selectors = None"
    by (simp add: content_selectors_def select_one_def services_page_def services_body_def
        heading_div_def text_div_def tree_defs py_def is_space_def)
  have s2: "class_container ascii_rt (services_page, []) =
      Some (text_div, [services_body, services_page])"
    by (simp add: class_container_def match_class_def content_class_def services_page_def
        services_body_def heading_div_def text_div_def tree_defs rt_defs str_defs)
  from extract_body_content_region_and_fallbacks [of ascii_rt services_page] s1 s2
  have s3: "content_div ascii_rt (services_page, []) = (text_div, [services_body, services_page])"
    by blast
  have p1: "first_selected (plain_page, []) content_selectors = None"
    by (simp add: content_selectors_def select_one_def plain_page_def plain_body_def
        tree_defs py_def)
  have p2: "class_container ascii_rt (plain_page, []) = None"
    by (simp add: class_container_def plain_page_def plain_body_def tree_defs py_def)
  have p3: "find_first (named ''body'') (plain_page, []) = Some (plain_body, [plain_page])"
    by (simp add: plain_page_def plain_body_def tree_defs py_def)
  from extract_body_content_region_and_fallbacks [of ascii_rt plain_page] p1 p2
  have "content_div ascii_rt (plain_page, []) =
      (case find_first (named ''body'') (plain_page, []) of
         Some b \<Rightarrow> b | None \<Rightarrow> (plain_page, []))"
    by blast
  with p3 have p4: "content_div ascii_rt (plain_page, []) = (plain_body, [plain_page])"
    by simp
  note t = extract_body_content_region_and_fallbacks [of ascii_rt cardiology_page]
  have c1: "first_selected (cardiology_page, []) content_selectors = None"
    by (simp add: content_selectors_def select_one_def cardiology_page_def tree_defs py_def)
  have c2: "class_container ascii_rt (cardiology_page, []) = None"
    by (simp add: class_container_def cardiology_page_def tree_defs py_def)
  have c3: "find_first (named ''body'') (cardiology_page, []) = None"
    by (simp add: cardiology_page_def tree_defs py_def)
  from t c1 c2 have "content_div ascii_rt (cardiology_page, []) =
      (case find_first (named ''body'') (cardiology_page, []) of
         Some b \<Rightarrow> b | None \<Rightarrow> (cardiology_page, []))"
    by blast
  with c3 have c4: "content_div ascii_rt (cardiology_page, []) = (cardiology_page, [])"
    by simp
  have n: "find_all (named tag) (cardiology_page, []) = []"
    if "tag \<in> {''p'', ''h2'', ''h3'', ''h4'', ''h5'', ''h6'', ''ul'', ''ol'', ''strong''}" for tag
    using that by (auto simp: cardiology_page_def tree_defs py_def)
  have h: "list_all (\<lambda>tag. find_all (named tag) (content_div ascii_rt (cardiology_page, [])) = [])
      [''h2'', ''h3'', ''h4'', ''h5'', ''h6'']"
    unfolding c4 by (simp add: n)
  have q: "find_all (named ''p'') (content_div ascii_rt (cardiology_page, [])) = []"
    "find_all (named ''ul'') (content_div ascii_rt (cardiology_page, [])) = []"
    "find_all (named ''ol'') (content_div ascii_rt (cardiology_page, [])) = []"
    "find_all (named ''h4'') (content_div ascii_rt (cardiology_page, [])) = []"
    "find_all (named ''strong'') (content_div ascii_rt (cardiology_page, [])) = []"
    unfolding c4 by (simp_all add: n)
  from t h q have r: "main_paragraphs (extract_body_content ascii_rt cardiology_page) = [] \<and>
      word_count (extract_body_content ascii_rt cardiology_page) = 0 \<and>
      \<not> has_subheadings (extract_body_content ascii_rt cardiology_page) \<and>
      \<not> has_bullet_lists (extract_body_content ascii_rt cardiology_page) \<and>
      \<not> has_collapsible_sections (extract_body_content ascii_rt cardiology_page) \<and>
      \<not> has_appointment_section (extract_body_content_su ascii_rt cardiology_page)"
    by blast
  have "find_all (named ''p'') (cardiology_page, []) = []" by (simp add: n)
  with a1 a2 s1 s2 s3 p1 p2 p4 c4 r show ?thesis by blast
qed

end
